theory Spec2Isabelle
  imports Complex_Main "HOL-Library.AList"
begin

section \<open>JavaScript numbers as the request layer uses them\<close>

text \<open>
  The quota fields of \<open>RateLimitInfo\<close> and the limiter's \<open>backoffTime\<close> are JavaScript
  numbers. A number is \<open>NaN\<close>, one of the two infinities, or finite; a finite number is
  kept as an exact rational (rounding to a double and the sign of zero are not modelled).
  Comparisons with \<open>NaN\<close> are false, as in the language.
\<close>

datatype jsnum = NaN | PInf | NInf | Fin rat

fun js_gt :: "jsnum \<Rightarrow> jsnum \<Rightarrow> bool" where
  "js_gt NaN _ = False"
| "js_gt _ NaN = False"
| "js_gt PInf PInf = False"
| "js_gt PInf _ = True"
| "js_gt NInf _ = False"
| "js_gt (Fin a) PInf = False"
| "js_gt (Fin a) NInf = True"
| "js_gt (Fin a) (Fin b) = (b < a)"

fun js_le :: "jsnum \<Rightarrow> jsnum \<Rightarrow> bool" where
  "js_le NaN _ = False"
| "js_le _ NaN = False"
| "js_le a b = (\<not> js_gt a b)"

fun js_neg :: "jsnum \<Rightarrow> jsnum" where
  "js_neg NaN = NaN"
| "js_neg PInf = NInf"
| "js_neg NInf = PInf"
| "js_neg (Fin a) = Fin (- a)"

fun js_mul :: "jsnum \<Rightarrow> jsnum \<Rightarrow> jsnum" where
  "js_mul NaN _ = NaN"
| "js_mul _ NaN = NaN"
| "js_mul (Fin a) (Fin b) = Fin (a * b)"
| "js_mul (Fin a) PInf = (if a = 0 then NaN else if 0 < a then PInf else NInf)"
| "js_mul (Fin a) NInf = (if a = 0 then NaN else if 0 < a then NInf else PInf)"
| "js_mul PInf (Fin b) = (if b = 0 then NaN else if 0 < b then PInf else NInf)"
| "js_mul NInf (Fin b) = (if b = 0 then NaN else if 0 < b then NInf else PInf)"
| "js_mul PInf PInf = PInf"
| "js_mul PInf NInf = NInf"
| "js_mul NInf PInf = NInf"
| "js_mul NInf NInf = PInf"

fun js_div :: "jsnum \<Rightarrow> jsnum \<Rightarrow> jsnum" where
  "js_div NaN _ = NaN"
| "js_div _ NaN = NaN"
| "js_div (Fin a) (Fin b) =
     (if b = 0 then (if a = 0 then NaN else if 0 < a then PInf else NInf) else Fin (a / b))"
| "js_div (Fin a) PInf = Fin 0"
| "js_div (Fin a) NInf = Fin 0"
| "js_div PInf (Fin b) = (if 0 \<le> b then PInf else NInf)"
| "js_div NInf (Fin b) = (if 0 \<le> b then NInf else PInf)"
| "js_div PInf PInf = NaN"
| "js_div PInf NInf = NaN"
| "js_div NInf PInf = NaN"
| "js_div NInf NInf = NaN"

subsection \<open>\<open>parseInt\<close> with no radix argument\<close>

text \<open>
  Leading white space (the ASCII white space here) is skipped, one sign is read, a \<open>0x\<close>/\<open>0X\<close> prefix selects radix 16,
  and the longest run of digits of the radix is the value; with no digit the result is
  \<open>NaN\<close>. In particular \<open>parseInt('Infinity')\<close> is \<open>NaN\<close>: \<open>I\<close> is not a digit.
\<close>

definition is_js_space :: "char \<Rightarrow> bool" where
  "is_js_space c = (c \<in> set [CHR '' '', CHR 0x09, CHR 0x0A, CHR 0x0B, CHR 0x0C, CHR 0x0D])"

definition digit_of :: "nat \<Rightarrow> char \<Rightarrow> nat option" where
  "digit_of radix c =
     (let n = (of_char c :: nat);
          v = (if 48 \<le> n \<and> n \<le> 57 then Some (n - 48)
               else if 97 \<le> n \<and> n \<le> 122 then Some (n - 87)
               else if 65 \<le> n \<and> n \<le> 90 then Some (n - 55)
               else None)
      in case v of None \<Rightarrow> None | Some d \<Rightarrow> if d < radix then Some d else None)"

fun digits_value :: "nat \<Rightarrow> nat \<Rightarrow> char list \<Rightarrow> nat" where
  "digits_value radix acc [] = acc"
| "digits_value radix acc (c # cs) =
     (case digit_of radix c of
        None \<Rightarrow> acc
      | Some d \<Rightarrow> digits_value radix (acc * radix + d) cs)"

definition parse_digits :: "nat \<Rightarrow> char list \<Rightarrow> jsnum" where
  "parse_digits radix s =
     (case s of
        [] \<Rightarrow> NaN
      | c # cs \<Rightarrow> (case digit_of radix c of
                     None \<Rightarrow> NaN
                   | Some d \<Rightarrow> Fin (of_nat (digits_value radix 0 s))))"

definition strip_radix_prefix :: "char list \<Rightarrow> nat \<times> char list" where
  "strip_radix_prefix s =
     (case s of
        c0 # c1 # rest \<Rightarrow>
          (if c0 = CHR ''0'' \<and> (c1 = CHR ''x'' \<or> c1 = CHR ''X'') then (16, rest) else (10, s))
      | _ \<Rightarrow> (10, s))"

definition parseInt :: "string \<Rightarrow> jsnum" where
  "parseInt str =
     (let s = dropWhile is_js_space str;
          (neg, s1) = (case s of
                         [] \<Rightarrow> (False, s)
                       | c # cs \<Rightarrow> if c = CHR ''-'' then (True, cs)
                                  else if c = CHR ''+'' then (False, cs) else (False, s));
          (radix, s2) = strip_radix_prefix s1;
          v = parse_digits radix s2
      in if neg then js_neg v else v)"

section \<open>The rate limiter's quota record and backoff\<close>

text \<open>
  \<open>resetTime\<close> is a \<open>Date\<close>; here it is its time value in milliseconds (\<open>NaN\<close> for an
  invalid date). \<open>new Date(v)\<close> clips a time value beyond 8.64e15 ms to an invalid date;
  the time values that occur are whole numbers of milliseconds.
\<close>

record RateLimitInfo =
  requestsRemaining :: jsnum
  resetTime :: jsnum
  totalLimit :: jsnum

fun new_Date :: "jsnum \<Rightarrow> jsnum" where
  "new_Date (Fin t) = (if \<bar>t\<bar> \<le> 8640000000000000 then Fin t else NaN)"
| "new_Date _ = NaN"

text \<open>
  A \<open>Headers\<close> object is a list of name/value pairs with the names in lower case, as
  \<open>fetch\<close> delivers them; \<open>headers.get\<close> returns the first value or \<open>null\<close>.
\<close>

type_synonym Headers = "(string \<times> string) list"

definition headers_get :: "Headers \<Rightarrow> string \<Rightarrow> string option" where
  "headers_get headers name = map_of headers name"

text \<open>\<open>headers.get(name) || dflt\<close>: a missing header and an empty one both give \<open>dflt\<close>.\<close>

definition get_or :: "Headers \<Rightarrow> string \<Rightarrow> string \<Rightarrow> string" where
  "get_or headers name dflt =
     (case headers_get headers name of None \<Rightarrow> dflt | Some v \<Rightarrow> if v = [] then dflt else v)"

text \<open>
  The record \<open>updateRateLimits\<close> (and \<open>OpenHands.updateRateLimitInfo\<close>, which has the same
  body) builds from a response's headers; \<open>now\<close> is the clock read by \<open>new Date()\<close>.
\<close>

definition info_of_headers :: "jsnum \<Rightarrow> Headers \<Rightarrow> RateLimitInfo" where
  "info_of_headers now headers =
     (let remaining = parseInt (get_or headers ''x-ratelimit-remaining'' ''Infinity'');
          reset = headers_get headers ''x-ratelimit-reset'';
          limit = parseInt (get_or headers ''x-ratelimit-limit'' ''Infinity'')
      in \<lparr> requestsRemaining = remaining,
           resetTime = (case reset of
                          None \<Rightarrow> new_Date now
                        | Some r \<Rightarrow> if r = [] then new_Date now
                                    else new_Date (js_mul (parseInt r) (Fin 1000))),
           totalLimit = limit \<rparr>)"

section \<open>Values, failures and units of work\<close>

text \<open>Parsed JSON, and \<open>undefined\<close> for a property that is not there.\<close>

datatype json =
    JUndefined | JNull | JBool bool | JNum rat | JStr string
  | JArr "json list" | JObj "(string \<times> json) list"

record Response =
  status :: nat
  statusText :: string
  headers :: "Headers option"
  json_body :: "json option"

text \<open>
  \<open>headers\<close> is \<open>None\<close> for a response object without a \<open>headers\<close> property (the source
  guards on it); \<open>json_body\<close> is \<open>None\<close> when \<open>response.json()\<close> rejects.
\<close>

definition ok :: "Response \<Rightarrow> bool" where
  "ok r = (200 \<le> status r \<and> status r \<le> 299)"

datatype val = Data json | Raw Response

datatype thrown = Error string | ThrownResponse Response

datatype settlement = Resolved val | Rejected thrown

record File =
  name :: string
  webkitRelativePath :: string

text \<open>
  The body of a request: \<open>JSON.stringify\<close> of a value, or a \<open>FormData\<close> with the files
  appended under \<open>"files"\<close>.
\<close>

datatype reqbody = JsonBody json | FormBody "File list"

record RequestInit =
  req_method :: "string option"
  body :: "reqbody option"
  init_headers :: Headers

definition no_options :: RequestInit where
  "no_options = \<lparr> req_method = None, body = None, init_headers = [] \<rparr>"

record call =
  url :: string
  options :: RequestInit
  disableToast :: bool
  returnResponse :: bool
  maxRetries :: int

text \<open>
  A unit handed to \<open>enqueue\<close> is either the closure \<open>executeRequest\<close> of one \<open>request\<close>
  call, or an opaque unit: a name and what each successive invocation of it settles to
  (an empty script is a unit whose promise stays pending).
\<close>

datatype work = ExecuteRequest call | Opaque string "settlement list"

record entry =
  execute :: work
  promise :: nat

section \<open>The limiter's fields and \<open>calculateBackoff\<close>\<close>

record RateLimiter =
  rateLimitInfo :: RateLimitInfo
  requestQueue :: "entry list"
  isProcessing :: bool
  backoffTime :: jsnum

definition RateLimiter_new :: "jsnum \<Rightarrow> RateLimiter" where
  "RateLimiter_new now =
     \<lparr> rateLimitInfo = \<lparr> requestsRemaining = PInf, resetTime = new_Date now, totalLimit = PInf \<rparr>,
       requestQueue = [],
       isProcessing = False,
       backoffTime = Fin 1000 \<rparr>"

definition calculateBackoff :: "'a RateLimiter_scheme \<Rightarrow> jsnum" where
  "calculateBackoff this =
     (if requestsRemaining (rateLimitInfo this) = PInf then Fin 0
      else let remainingPercentage =
                 js_div (requestsRemaining (rateLimitInfo this)) (totalLimit (rateLimitInfo this))
           in if js_gt remainingPercentage (Fin (5 / 10)) then Fin 0
              else if js_gt remainingPercentage (Fin (2 / 10)) then backoffTime this
              else if js_gt remainingPercentage (Fin (1 / 10)) then js_mul (backoffTime this) (Fin 2)
              else js_mul (backoffTime this) (Fin 4))"
section \<open>The request executor and the drain loop as one machine\<close>

text \<open>
  All asynchronous code of the module runs on one thread. Between two suspension points
  (\<open>await\<close>, a timer, the network) a block of code runs to completion; the machine below
  has one transition for each such block. \<open>control\<close> says where \<open>processQueue\<close> is
  suspended, and, while a unit is in flight, \<open>phase\<close> says where that unit is suspended.
\<close>

datatype phase =
    Settled settlement    \<comment> \<open>the promise of \<open>execute()\<close> has settled; the loop's \<open>await\<close> resumes next\<close>
  | Pending               \<comment> \<open>an opaque unit whose promise never settles\<close>
  | AuthWait              \<comment> \<open>\<open>setTimeout(..., WAIT_FOR_AUTH_DELAY_MS)\<close> is pending\<close>
  | Fetching              \<comment> \<open>\<open>await fetch(url, finalOptions)\<close>\<close>
  | Reauth nat            \<comment> \<open>\<open>await request("/api/authenticate", ...)\<close>, the promise awaited\<close>
  | RetrySleep jsnum      \<comment> \<open>\<open>await\<close> of the \<open>retry-after\<close> timer, its duration in ms\<close>
  | Forward nat           \<comment> \<open>the unit returned the promise of a nested \<open>request\<close>\<close>

datatype control =
    Idle                  \<comment> \<open>no drain loop is running\<close>
  | LoopHead              \<comment> \<open>about to test \<open>requestQueue.length > 0\<close>\<close>
  | BackoffSleep jsnum    \<comment> \<open>\<open>await\<close> of the proactive backoff timer, its duration in ms\<close>
  | Running entry phase   \<comment> \<open>\<open>await request.execute()\<close>\<close>
  | RequeueSleep jsnum    \<comment> \<open>\<open>await\<close> of the timer after a requeue, its duration in ms\<close>
  | Crashed               \<comment> \<open>\<open>processQueue\<close> ended with an uncaught exception, the flag still set\<close>

datatype fetch_result = NetworkError | Responds Response

datatype event =
    Invoke work                   \<comment> \<open>\<open>request.execute()\<close> is called\<close>
  | FetchCall string RequestInit  \<comment> \<open>\<open>fetch(url, finalOptions)\<close>\<close>
  | Slept jsnum                   \<comment> \<open>a \<open>setTimeout\<close> of that many ms was awaited\<close>
  | Settle nat settlement         \<comment> \<open>\<open>resolve\<close>/\<open>reject\<close> of an enqueued promise\<close>
  | Toast string                  \<comment> \<open>\<open>toast.error("api", msg)\<close>\<close>
  | Emit RateLimitInfo            \<comment> \<open>\<open>emit('limitUpdate', info)\<close>\<close>
  | Requested call nat            \<comment> \<open>\<open>request(...)\<close> was called and returned that promise\<close>

record sys = RateLimiter +
  ctl :: control
  settled :: "(nat \<times> settlement) list"
  next_promise :: nat
  log :: "event list"
  clock :: rat
  token :: "string option"
  githubToken :: "string option"
  backend :: "fetch_result list"

text \<open>
  \<open>token\<close> and \<open>githubToken\<close> are what \<open>getToken()\<close> and \<open>getGitHubToken()\<close> return;
  \<open>backend\<close> is what the successive \<open>fetch\<close> calls will meet (a fetch beyond the script
  meets a network error); \<open>clock\<close> is the time read by \<open>new Date()\<close>, advanced by the timers.
\<close>

definition init_sys :: "rat \<Rightarrow> string option \<Rightarrow> string option \<Rightarrow> fetch_result list \<Rightarrow> sys" where
  "init_sys now tok gh net =
     RateLimiter.extend (RateLimiter_new (Fin now))
       \<lparr> ctl = Idle, settled = [], next_promise = 0, log = [], clock = now,
         token = tok, githubToken = gh, backend = net \<rparr>"

definition truthy :: "string option \<Rightarrow> bool" where
  "truthy t = (case t of None \<Rightarrow> False | Some v \<Rightarrow> v \<noteq> [])"

definition WAIT_FOR_AUTH_DELAY_MS :: jsnum where
  "WAIT_FOR_AUTH_DELAY_MS = Fin 500"

definition UNAUTHED_ROUTE_PREFIXES :: "string list" where
  "UNAUTHED_ROUTE_PREFIXES =
     [''/api/authenticate'', ''/api/options/'', ''/config.json'', ''/api/github/callback'']"

definition startsWith :: "string \<Rightarrow> string \<Rightarrow> bool" where
  "startsWith s p = (take (length p) s = p)"

definition needsAuth :: "string \<Rightarrow> bool" where
  "needsAuth u = (\<not> list_ex (\<lambda>p. startsWith u p) UNAUTHED_ROUTE_PREFIXES)"

definition sleep :: "jsnum \<Rightarrow> sys \<Rightarrow> sys" where
  "sleep ms s =
     s\<lparr> log := log s @ [Slept ms],
        clock := clock s + (case ms of Fin d \<Rightarrow> if 0 < d then d else 0 | _ \<Rightarrow> 0) \<rparr>"

definition updateRateLimits :: "Headers \<Rightarrow> sys \<Rightarrow> sys" where
  "updateRateLimits hs s =
     (let info = info_of_headers (Fin (clock s)) hs
      in s\<lparr> rateLimitInfo := info, log := log s @ [Emit info] \<rparr>)"

text \<open>\<open>processQueue\<close> up to its loop: the guard, then the flag.\<close>

definition processQueue :: "sys \<Rightarrow> sys" where
  "processQueue s =
     (if isProcessing s \<or> requestQueue s = [] then s
      else s\<lparr> isProcessing := True, ctl := LoopHead \<rparr>)"

definition enqueue :: "work \<Rightarrow> sys \<Rightarrow> nat \<times> sys" where
  "enqueue w s =
     (let p = next_promise s;
          s1 = s\<lparr> next_promise := p + 1,
                  requestQueue := requestQueue s @ [\<lparr> execute = w, promise = p \<rparr>] \<rparr>
      in (p, if \<not> isProcessing s1 then processQueue s1 else s1))"

definition request :: "call \<Rightarrow> sys \<Rightarrow> nat \<times> sys" where
  "request c s =
     (let (p, s1) = enqueue (ExecuteRequest c) s
      in (p, s1\<lparr> log := log s1 @ [Requested c p] \<rparr>))"

definition retry_call :: "call \<Rightarrow> call" where
  "retry_call c = c\<lparr> maxRetries := maxRetries c - 1 \<rparr>"

definition authenticate_call :: call where
  "authenticate_call =
     \<lparr> url = ''/api/authenticate'',
       options = \<lparr> req_method = Some ''POST'', body = None, init_headers = [] \<rparr>,
       disableToast = True, returnResponse = False, maxRetries = 3 \<rparr>"

subsection \<open>\<open>executeRequest\<close>\<close>

fun show_digits :: "nat \<Rightarrow> nat \<Rightarrow> string" where
  "show_digits 0 n = []"
| "show_digits (Suc fuel) n =
     (if n < 10 then [''0123456789'' ! n]
      else show_digits fuel (n div 10) @ [''0123456789'' ! (n mod 10)])"

definition show_nat :: "nat \<Rightarrow> string" where
  "show_nat n = show_digits (Suc n) n"

text \<open>\<open>onFail\<close>: the toast unless suppressed; the \<open>throw\<close> is the caller's next move.\<close>

definition onFail :: "call \<Rightarrow> string \<Rightarrow> sys \<Rightarrow> sys" where
  "onFail c msg s = (if \<not> disableToast c then s\<lparr> log := log s @ [Toast msg] \<rparr> else s)"

text \<open>
  The outer \<open>catch (e)\<close>: whatever was thrown inside the \<open>try\<close>, \<open>onFail\<close> is called with
  \<open>Error fetching <url>\<close> and throws that error.
\<close>

definition catch_all :: "call \<Rightarrow> sys \<Rightarrow> phase \<times> sys" where
  "catch_all c s =
     (let msg = ''Error fetching '' @ url c
      in (Settled (Rejected (Error msg)), onFail c msg s))"

definition finalOptions :: "call \<Rightarrow> sys \<Rightarrow> RequestInit" where
  "finalOptions c s =
     (let h0 = init_headers (options c);
          h1 = (case token s of
                  None \<Rightarrow> h0
                | Some t \<Rightarrow> if t = [] then h0
                            else AList.update ''Authorization'' (''Bearer '' @ t) h0);
          h2 = (case githubToken s of
                  None \<Rightarrow> h1
                | Some g \<Rightarrow> if g = [] then h1 else AList.update ''X-GitHub-Token'' g h1)
      in (options c)\<lparr> init_headers := h2 \<rparr>)"

text \<open>The unit from its call to its first suspension point.\<close>

definition executeRequest_start :: "call \<Rightarrow> sys \<Rightarrow> phase \<times> sys" where
  "executeRequest_start c s =
     (if maxRetries c < 0 then (Settled (Rejected (Error ''Max retries exceeded'')), s)
      else if \<not> truthy (token s) \<and> needsAuth (url c) then (AuthWait, s)
      else (Fetching, s\<lparr> log := log s @ [FetchCall (url c) (finalOptions c s)] \<rparr>))"

text \<open>\<open>if (response.headers) rateLimiter.updateRateLimits(response.headers)\<close>.\<close>

definition note_response :: "Response \<Rightarrow> sys \<Rightarrow> sys" where
  "note_response r s = (case headers r of None \<Rightarrow> s | Some hs \<Rightarrow> updateRateLimits hs s)"

text \<open>
  The unit from the arrival of the response to its next suspension point. With status 429
  and no \<open>headers\<close> property, \<open>response.headers.get\<close> throws inside the \<open>try\<close>.
\<close>

definition on_response :: "call \<Rightarrow> Response \<Rightarrow> sys \<Rightarrow> phase \<times> sys" where
  "on_response c r s =
     (let s1 = note_response r s
      in if status r = 401 then
           (let (p, s2) = request authenticate_call s1 in (Reauth p, s2))
         else if status r = 429 then
           (case headers r of
              None \<Rightarrow> catch_all c s1
            | Some hs \<Rightarrow>
                (RetrySleep (js_mul (parseInt (get_or hs ''retry-after'' ''5'')) (Fin 1000)), s1))
         else if 400 \<le> status r then
           catch_all c (onFail c (show_nat (status r) @ '' error while fetching '' @ url c
                                   @ '': '' @ statusText r) s1)
         else if \<not> ok r then
           catch_all c (onFail c (''Error fetching '' @ url c @ '': '' @ statusText r) s1)
         else if returnResponse c then (Settled (Resolved (Raw r)), s1)
         else (case json_body r of
                 Some d \<Rightarrow> (Settled (Resolved (Data d)), s1)
               | None \<Rightarrow> catch_all c (onFail c (''Error parsing JSON from '' @ url c) s1)))"

text \<open>The recursive \<open>request(url, options, disableToast, returnResponse, maxRetries - 1)\<close>.\<close>

definition nested_retry :: "call \<Rightarrow> sys \<Rightarrow> phase \<times> sys" where
  "nested_retry c s = (let (p, s1) = request (retry_call c) s in (Forward p, s1))"

text \<open>
  One resumption of a suspended \<open>executeRequest\<close>; \<open>None\<close> when what it awaits has not
  happened: the promise of a nested \<open>request\<close> is still pending.
\<close>

definition executeRequest_resume :: "call \<Rightarrow> phase \<Rightarrow> sys \<Rightarrow> (phase \<times> sys) option" where
  "executeRequest_resume c ph s =
     (case ph of
        Settled st \<Rightarrow> None
      | Pending \<Rightarrow> None
      | AuthWait \<Rightarrow> Some (nested_retry c (sleep WAIT_FOR_AUTH_DELAY_MS s))
      | Fetching \<Rightarrow>
          (case backend s of
             [] \<Rightarrow> Some (catch_all c s)
           | NetworkError # net \<Rightarrow> Some (catch_all c (s\<lparr> backend := net \<rparr>))
           | Responds r # net \<Rightarrow> Some (on_response c r (s\<lparr> backend := net \<rparr>)))
      | Reauth p \<Rightarrow>
          (case map_of (settled s) p of
             None \<Rightarrow> None
           | Some (Resolved v) \<Rightarrow> Some (nested_retry c s)
           | Some (Rejected e) \<Rightarrow> Some (catch_all c s))
      | RetrySleep d \<Rightarrow> Some (nested_retry c (sleep d s))
      | Forward p \<Rightarrow>
          (case map_of (settled s) p of
             None \<Rightarrow> None
           | Some st \<Rightarrow> Some (Settled st, s)))"

subsection \<open>\<open>processQueue\<close>\<close>

definition settle :: "nat \<Rightarrow> settlement \<Rightarrow> sys \<Rightarrow> sys" where
  "settle p st s = s\<lparr> settled := settled s @ [(p, st)], log := log s @ [Settle p st] \<rparr>"

text \<open>\<open>const request = this.requestQueue.shift()!\<close> and the call of \<open>request.execute()\<close>.\<close>

definition start_unit :: "sys \<Rightarrow> sys" where
  "start_unit s =
     (case requestQueue s of
        [] \<Rightarrow> s\<lparr> ctl := Crashed \<rparr>
      | e # rest \<Rightarrow>
          (let s1 = s\<lparr> requestQueue := rest, log := log s @ [Invoke (execute e)] \<rparr>
           in case execute e of
                ExecuteRequest c \<Rightarrow>
                  (let (ph, s2) = executeRequest_start c s1 in s2\<lparr> ctl := Running e ph \<rparr>)
              | Opaque uid script \<Rightarrow>
                  (case script of
                     [] \<Rightarrow> s1\<lparr> ctl := Running e Pending \<rparr>
                   | x # xs \<Rightarrow> s1\<lparr> ctl := Running (e\<lparr> execute := Opaque uid xs \<rparr>) (Settled x) \<rparr>)))"

definition loop_head :: "sys \<Rightarrow> sys" where
  "loop_head s =
     (if requestQueue s = [] then s\<lparr> isProcessing := False, ctl := Idle \<rparr>
      else let backoff = calculateBackoff s
           in if js_gt backoff (Fin 0) then s\<lparr> ctl := BackoffSleep backoff \<rparr>
              else start_unit s)"

definition is_429 :: "thrown \<Rightarrow> bool" where
  "is_429 e = (case e of Error m \<Rightarrow> False | ThrownResponse r \<Rightarrow> status r = 429)"

text \<open>The loop after \<open>await request.execute()\<close>: \<open>resolve\<close>, or the \<open>catch\<close>.\<close>

definition after_execute :: "entry \<Rightarrow> settlement \<Rightarrow> sys \<Rightarrow> sys" where
  "after_execute e st s =
     (case st of
        Resolved v \<Rightarrow> (settle (promise e) st s)\<lparr> ctl := LoopHead \<rparr>
      | Rejected err \<Rightarrow>
          if is_429 err then
            (let b = js_mul (backoffTime s) (Fin 2)
             in s\<lparr> backoffTime := b, requestQueue := e # requestQueue s, ctl := RequeueSleep b \<rparr>)
          else (settle (promise e) st s)\<lparr> ctl := LoopHead \<rparr>)"

text \<open>One transition of the machine; \<open>None\<close> when no block of code can run.\<close>

definition step :: "sys \<Rightarrow> sys option" where
  "step s =
     (case ctl s of
        Idle \<Rightarrow> None
      | Crashed \<Rightarrow> None
      | LoopHead \<Rightarrow> Some (loop_head s)
      | BackoffSleep d \<Rightarrow> Some (start_unit (sleep d s))
      | RequeueSleep d \<Rightarrow> Some ((sleep d s)\<lparr> ctl := LoopHead \<rparr>)
      | Running e ph \<Rightarrow>
          (case ph of
             Settled st \<Rightarrow> Some (after_execute e st s)
           | _ \<Rightarrow>
              (case execute e of
                 Opaque uid script \<Rightarrow> None
               | ExecuteRequest c \<Rightarrow>
                   (case executeRequest_resume c ph s of
                      None \<Rightarrow> None
                    | Some (ph', s') \<Rightarrow> Some (s'\<lparr> ctl := Running e ph' \<rparr>)))))"

fun run :: "nat \<Rightarrow> sys \<Rightarrow> sys" where
  "run 0 s = s"
| "run (Suc n) s = (case step s of None \<Rightarrow> s | Some s' \<Rightarrow> run n s')"

definition stuck :: "sys \<Rightarrow> bool" where
  "stuck s = (step s = None)"

definition settlement_of :: "sys \<Rightarrow> nat \<Rightarrow> settlement option" where
  "settlement_of s p = map_of (settled s) p"

section \<open>The API catalogue\<close>

text \<open>
  Modelled from the spec: the cache is an external collaborator, a key-value store with
  \<open>get\<close>, \<open>set\<close> and \<open>delete\<close>.
\<close>

type_synonym cache = "string \<rightharpoonup> val"

definition cache_get :: "cache \<Rightarrow> string \<Rightarrow> val option" where
  "cache_get c k = c k"

definition cache_set :: "string \<Rightarrow> val \<Rightarrow> cache \<Rightarrow> cache" where
  "cache_set k v c = c(k \<mapsto> v)"

definition cache_delete :: "string \<Rightarrow> cache \<Rightarrow> cache" where
  "cache_delete k c = c(k := None)"

text \<open>\<open>if (cachedData)\<close>: a missing entry and a falsy cached value both miss.\<close>

fun truthy_json :: "json \<Rightarrow> bool" where
  "truthy_json JUndefined = False"
| "truthy_json JNull = False"
| "truthy_json (JBool b) = b"
| "truthy_json (JNum n) = (n \<noteq> 0)"
| "truthy_json (JStr s) = (s \<noteq> [])"
| "truthy_json (JArr xs) = True"
| "truthy_json (JObj kvs) = True"

fun truthy_val :: "val \<Rightarrow> bool" where
  "truthy_val (Data j) = truthy_json j"
| "truthy_val (Raw r) = True"

definition cached :: "cache \<Rightarrow> string \<Rightarrow> val option" where
  "cached c k = (case cache_get c k of None \<Rightarrow> None | Some v \<Rightarrow> if truthy_val v then Some v else None)"

text \<open>
  The static field \<open>OpenHands.rateLimitInfo\<close> holds the record it was initialised with or,
  after \<open>checkRateLimit\<close>, whatever the rate-limit endpoint answered.
\<close>

datatype snapshot = Info RateLimitInfo | Answer val

record OpenHands =
  OpenHands_rateLimitInfo :: snapshot
  cache :: cache

definition OpenHands_init :: "jsnum \<Rightarrow> OpenHands" where
  "OpenHands_init now =
     \<lparr> OpenHands_rateLimitInfo =
         Info \<lparr> requestsRemaining = PInf, resetTime = new_Date now, totalLimit = PInf \<rparr>,
       cache = Map.empty \<rparr>"

text \<open>\<open>OpenHands.updateRateLimitInfo\<close>: private, and called nowhere in the class.\<close>

definition updateRateLimitInfo :: "jsnum \<Rightarrow> Headers \<Rightarrow> OpenHands \<Rightarrow> OpenHands" where
  "updateRateLimitInfo now hs this = this\<lparr> OpenHands_rateLimitInfo := Info (info_of_headers now hs) \<rparr>"

subsection \<open>Strings\<close>

fun split_slash :: "string \<Rightarrow> string list" where
  "split_slash [] = [[]]"
| "split_slash (c # cs) =
     (if c = CHR ''/'' then [] # split_slash cs
      else (case split_slash cs of [] \<Rightarrow> [[c]] | x # xs \<Rightarrow> (c # x) # xs))"

fun join_slash :: "string list \<Rightarrow> string" where
  "join_slash [] = []"
| "join_slash [x] = x"
| "join_slash (x # y # ys) = x @ ''/'' @ join_slash (y # ys)"

text \<open>\<open>path.split('/').slice(0, -1).join('/')\<close>.\<close>

definition parent_dir :: "string \<Rightarrow> string" where
  "parent_dir path = join_slash (butlast (split_slash path))"

definition hex_digit :: "nat \<Rightarrow> char" where
  "hex_digit n = ''0123456789ABCDEF'' ! n"

definition uri_unreserved :: "char \<Rightarrow> bool" where
  "uri_unreserved c =
     (let n = (of_char c :: nat)
      in (48 \<le> n \<and> n \<le> 57) \<or> (65 \<le> n \<and> n \<le> 90) \<or> (97 \<le> n \<and> n \<le> 122)
         \<or> c \<in> set ''-_.!~*'' \<or> c = CHR 0x27 \<or> c = CHR ''('' \<or> c = CHR '')'')"

text \<open>\<open>encodeURIComponent\<close> on a string given as its UTF-8 bytes.\<close>

definition encodeURIComponent :: "string \<Rightarrow> string" where
  "encodeURIComponent s =
     concat (map (\<lambda>c. if uri_unreserved c then [c]
                       else (let n = (of_char c :: nat)
                             in [CHR ''%'', hex_digit (n div 16), hex_digit (n mod 16)])) s)"

subsection \<open>The calls\<close>

text \<open>
  Each method takes \<open>await_request\<close>, standing for \<open>await request(...)\<close>: the settlement of the
  promise the request layer returns for that call. A method whose request never settles
  never resumes, and has changed nothing before the \<open>await\<close>.
\<close>

definition get_call :: "string \<Rightarrow> call" where
  "get_call u = \<lparr> url = u, options = no_options, disableToast = False,
                  returnResponse = False, maxRetries = 3 \<rparr>"

definition post_json :: "string \<Rightarrow> json \<Rightarrow> call" where
  "post_json u j =
     \<lparr> url = u,
       options = \<lparr> req_method = Some ''POST'', body = Some (JsonBody j),
                   init_headers = [(''Content-Type'', ''application/json'')] \<rparr>,
       disableToast = False, returnResponse = False, maxRetries = 3 \<rparr>"

text \<open>The pattern of the cached reads: hit, or request and store.\<close>

definition cached_read ::
  "(call \<Rightarrow> settlement) \<Rightarrow> string \<Rightarrow> string \<Rightarrow> OpenHands \<Rightarrow> settlement \<times> OpenHands" where
  "cached_read await_request key u this =
     (case cached (cache this) key of
        Some v \<Rightarrow> (Resolved v, this)
      | None \<Rightarrow>
          (case await_request (get_call u) of
             Rejected e \<Rightarrow> (Rejected e, this)
           | Resolved data \<Rightarrow> (Resolved data, this\<lparr> cache := cache_set key data (cache this) \<rparr>)))"

definition getModels :: "(call \<Rightarrow> settlement) \<Rightarrow> OpenHands \<Rightarrow> settlement \<times> OpenHands" where
  "getModels await_request this = cached_read await_request ''models'' ''/api/options/models'' this"

definition getAgents :: "(call \<Rightarrow> settlement) \<Rightarrow> OpenHands \<Rightarrow> settlement \<times> OpenHands" where
  "getAgents await_request this = cached_read await_request ''agents'' ''/api/options/agents'' this"

definition getSecurityAnalyzers :: "(call \<Rightarrow> settlement) \<Rightarrow> OpenHands \<Rightarrow> settlement \<times> OpenHands" where
  "getSecurityAnalyzers await_request this =
     cached_read await_request ''security-analyzers'' ''/api/options/security-analyzers'' this"

definition getConfig :: "(call \<Rightarrow> settlement) \<Rightarrow> OpenHands \<Rightarrow> settlement \<times> OpenHands" where
  "getConfig await_request this = cached_read await_request ''config'' ''/config.json'' this"

text \<open>\<open>path ? ... : ...\<close>: an absent path and the empty path are the root.\<close>

definition files_key :: "string option \<Rightarrow> string" where
  "files_key path =
     (case path of None \<Rightarrow> ''files:root''
      | Some p \<Rightarrow> if p = [] then ''files:root'' else ''files:'' @ p)"

definition files_url :: "string option \<Rightarrow> string" where
  "files_url path =
     (case path of None \<Rightarrow> ''/api/list-files''
      | Some p \<Rightarrow> if p = [] then ''/api/list-files''
                  else ''/api/list-files?path='' @ encodeURIComponent p)"

definition getFiles ::
  "(call \<Rightarrow> settlement) \<Rightarrow> string option \<Rightarrow> OpenHands \<Rightarrow> settlement \<times> OpenHands" where
  "getFiles await_request path this = cached_read await_request (files_key path) (files_url path) this"

text \<open>\<open>data.code\<close>: reading a property of \<open>null\<close> or \<open>undefined\<close> throws a \<open>TypeError\<close>.\<close>

definition code_of :: "val \<Rightarrow> thrown + val" where
  "code_of data =
     (case data of
        Raw r \<Rightarrow> Inr (Data JUndefined)
      | Data j \<Rightarrow>
          (case j of
             JNull \<Rightarrow> Inl (Error ''TypeError'')
           | JUndefined \<Rightarrow> Inl (Error ''TypeError'')
           | JObj kvs \<Rightarrow> Inr (Data (case map_of kvs ''code'' of None \<Rightarrow> JUndefined | Some v \<Rightarrow> v))
           | _ \<Rightarrow> Inr (Data JUndefined)))"

definition file_key :: "string \<Rightarrow> string" where
  "file_key path = ''file:'' @ path"

definition file_url :: "string \<Rightarrow> string" where
  "file_url path = ''/api/select-file?file='' @ encodeURIComponent path"

definition getFile ::
  "(call \<Rightarrow> settlement) \<Rightarrow> string \<Rightarrow> OpenHands \<Rightarrow> settlement \<times> OpenHands" where
  "getFile await_request path this =
     (let cacheKey = file_key path
      in case cached (cache this) cacheKey of
           Some v \<Rightarrow> (Resolved v, this)
         | None \<Rightarrow>
             (case await_request (get_call (file_url path)) of
                Rejected e \<Rightarrow> (Rejected e, this)
              | Resolved data \<Rightarrow>
                  (case code_of data of
                     Inl e \<Rightarrow> (Rejected e, this)
                   | Inr content \<Rightarrow>
                       (Resolved content, this\<lparr> cache := cache_set cacheKey content (cache this) \<rparr>))))"

definition saveFile_call :: "string \<Rightarrow> string \<Rightarrow> call" where
  "saveFile_call path content =
     post_json ''/api/save-file'' (JObj [(''filePath'', JStr path), (''content'', JStr content)])"

definition saveFile ::
  "(call \<Rightarrow> settlement) \<Rightarrow> string \<Rightarrow> string \<Rightarrow> OpenHands \<Rightarrow> settlement \<times> OpenHands" where
  "saveFile await_request path content this =
     (case await_request (saveFile_call path content) of
        Rejected e \<Rightarrow> (Rejected e, this)
      | Resolved response \<Rightarrow>
          (Resolved response,
           this\<lparr> cache := cache_delete (''files:'' @ parent_dir path)
                              (cache_delete ''files:root''
                                (cache_delete (file_key path) (cache this))) \<rparr>))"

definition uploadFiles_call :: "File list \<Rightarrow> call" where
  "uploadFiles_call file =
     \<lparr> url = ''/api/upload-files'',
       options = \<lparr> req_method = Some ''POST'', body = Some (FormBody file), init_headers = [] \<rparr>,
       disableToast = False, returnResponse = False, maxRetries = 3 \<rparr>"

text \<open>\<open>f.webkitRelativePath || f.name\<close>.\<close>

definition upload_path :: "File \<Rightarrow> string" where
  "upload_path f = (if webkitRelativePath f \<noteq> [] then webkitRelativePath f else name f)"

text \<open>The body of the second \<open>forEach\<close> of \<open>uploadFiles\<close>.\<close>

definition invalidate_dir :: "File \<Rightarrow> cache \<Rightarrow> cache" where
  "invalidate_dir f c =
     (let path = upload_path f;
          dir = parent_dir path
      in if dir \<noteq> [] then cache_delete (''files:'' @ dir) c else c)"

definition uploadFiles ::
  "(call \<Rightarrow> settlement) \<Rightarrow> File list \<Rightarrow> OpenHands \<Rightarrow> settlement \<times> OpenHands" where
  "uploadFiles await_request file this =
     (case await_request (uploadFiles_call file) of
        Rejected e \<Rightarrow> (Rejected e, this)
      | Resolved response \<Rightarrow>
          (Resolved response,
           this\<lparr> cache := fold invalidate_dir file (cache_delete ''files:root'' (cache this)) \<rparr>))"

text \<open>
  \<open>getWorkspaceZip\<close>: the raw response stands for its blob; \<open>blob\<close> is no method of parsed
  data.
\<close>

definition getWorkspaceZip :: "(call \<Rightarrow> settlement) \<Rightarrow> OpenHands \<Rightarrow> settlement \<times> OpenHands" where
  "getWorkspaceZip await_request this =
     (case await_request \<lparr> url = ''/api/zip-directory'', options = no_options, disableToast = False,
                     returnResponse = True, maxRetries = 3 \<rparr> of
        Rejected e \<Rightarrow> (Rejected e, this)
      | Resolved (Raw r) \<Rightarrow> (Resolved (Raw r), this)
      | Resolved (Data j) \<Rightarrow> (Rejected (Error ''TypeError''), this))"

definition submitFeedback ::
  "(call \<Rightarrow> settlement) \<Rightarrow> json \<Rightarrow> OpenHands \<Rightarrow> settlement \<times> OpenHands" where
  "submitFeedback await_request data this = (await_request (post_json ''/api/submit-feedback'' data), this)"

definition getGitHubAccessToken ::
  "(call \<Rightarrow> settlement) \<Rightarrow> string \<Rightarrow> OpenHands \<Rightarrow> settlement \<times> OpenHands" where
  "getGitHubAccessToken await_request code this =
     (await_request (post_json ''/api/github/callback'' (JObj [(''code'', JStr code)])), this)"

definition authenticate :: "(call \<Rightarrow> settlement) \<Rightarrow> OpenHands \<Rightarrow> settlement \<times> OpenHands" where
  "authenticate await_request this = (await_request authenticate_call, this)"

definition checkRateLimit_call :: call where
  "checkRateLimit_call =
     \<lparr> url = ''/api/rate-limit'', options = no_options, disableToast = True,
       returnResponse = False, maxRetries = 3 \<rparr>"

text \<open>
  \<open>checkRateLimit\<close>: on success the answer is stored and returned; the \<open>catch\<close> returns
  \<open>this.getRateLimitStatus()\<close>, the stored snapshot.
\<close>

definition checkRateLimit :: "(call \<Rightarrow> settlement) \<Rightarrow> OpenHands \<Rightarrow> snapshot \<times> OpenHands" where
  "checkRateLimit await_request this =
     (case await_request checkRateLimit_call of
        Resolved response \<Rightarrow> (Answer response, this\<lparr> OpenHands_rateLimitInfo := Answer response \<rparr>)
      | Rejected e \<Rightarrow> (OpenHands_rateLimitInfo this, this))"

text \<open>Every public method of the class that goes through \<open>request\<close>, and its effect on the class.\<close>

datatype api_call =
    GetModels | GetAgents | GetSecurityAnalyzers | GetConfig
  | GetFiles "string option" | GetFile string | SaveFile string string | UploadFiles "File list"
  | GetWorkspaceZip | SubmitFeedback json | GetGitHubAccessToken string | Authenticate
  | CheckRateLimit

fun perform :: "(call \<Rightarrow> settlement) \<Rightarrow> api_call \<Rightarrow> OpenHands \<Rightarrow> OpenHands" where
  "perform await_request GetModels this = snd (getModels await_request this)"
| "perform await_request GetAgents this = snd (getAgents await_request this)"
| "perform await_request GetSecurityAnalyzers this = snd (getSecurityAnalyzers await_request this)"
| "perform await_request GetConfig this = snd (getConfig await_request this)"
| "perform await_request (GetFiles path) this = snd (getFiles await_request path this)"
| "perform await_request (GetFile path) this = snd (getFile await_request path this)"
| "perform await_request (SaveFile path content) this = snd (saveFile await_request path content this)"
| "perform await_request (UploadFiles file) this = snd (uploadFiles await_request file this)"
| "perform await_request GetWorkspaceZip this = snd (getWorkspaceZip await_request this)"
| "perform await_request (SubmitFeedback data) this = snd (submitFeedback await_request data this)"
| "perform await_request (GetGitHubAccessToken code) this = snd (getGitHubAccessToken await_request code this)"
| "perform await_request Authenticate this = snd (authenticate await_request this)"
| "perform await_request CheckRateLimit this = snd (checkRateLimit await_request this)"

section \<open>The quota record as an object, and what a snapshot shares with it\<close>

text \<open>
  \<open>getRateLimitInfo\<close> and \<open>getRateLimitStatus\<close> return \<open>{ ...this.rateLimitInfo }\<close>. What a
  caller can do to the internal record through the returned object depends on which
  objects the two share, so here the record is an object in a store, and its \<open>resetTime\<close>
  is a reference to a \<open>Date\<close> object in the same store. A reference is an index.
\<close>

record info_obj =
  obj_requestsRemaining :: jsnum
  obj_resetTime :: nat
  obj_totalLimit :: jsnum

record store =
  infos :: "info_obj list"
  dates :: "jsnum list"

definition lookup :: "'a list \<Rightarrow> nat \<Rightarrow> 'a option" where
  "lookup xs i = (if i < length xs then Some (xs ! i) else None)"

text \<open>The spread: a new object with the same property values, references included.\<close>

definition spread_copy :: "nat \<Rightarrow> store \<Rightarrow> (nat \<times> store) option" where
  "spread_copy r h =
     (case lookup (infos h) r of
        None \<Rightarrow> None
      | Some obj \<Rightarrow> Some (length (infos h), h\<lparr> infos := infos h @ [obj] \<rparr>))"

definition getRateLimitInfo :: "nat \<Rightarrow> store \<Rightarrow> (nat \<times> store) option" where
  "getRateLimitInfo this_rateLimitInfo h = spread_copy this_rateLimitInfo h"

definition getRateLimitStatus :: "nat \<Rightarrow> store \<Rightarrow> (nat \<times> store) option" where
  "getRateLimitStatus this_rateLimitInfo h = spread_copy this_rateLimitInfo h"

text \<open>
  What a caller can do to an object it holds: assign one of its three properties, or call
  \<open>setTime\<close> on the \<open>Date\<close> its \<open>resetTime\<close> refers to.
\<close>

datatype mutation =
    AssignRequestsRemaining jsnum
  | AssignTotalLimit jsnum
  | AssignResetTime nat
  | ResetTime_setTime jsnum

fun is_assignment :: "mutation \<Rightarrow> bool" where
  "is_assignment (ResetTime_setTime t) = False"
| "is_assignment _ = True"

definition mutate :: "mutation \<Rightarrow> nat \<Rightarrow> store \<Rightarrow> store" where
  "mutate m r h =
     (case lookup (infos h) r of
        None \<Rightarrow> h
      | Some obj \<Rightarrow>
          (case m of
             AssignRequestsRemaining v \<Rightarrow> h\<lparr> infos := (infos h)[r := obj\<lparr> obj_requestsRemaining := v \<rparr>] \<rparr>
           | AssignTotalLimit v \<Rightarrow> h\<lparr> infos := (infos h)[r := obj\<lparr> obj_totalLimit := v \<rparr>] \<rparr>
           | AssignResetTime d \<Rightarrow> h\<lparr> infos := (infos h)[r := obj\<lparr> obj_resetTime := d \<rparr>] \<rparr>
           | ResetTime_setTime t \<Rightarrow> h\<lparr> dates := (dates h)[obj_resetTime obj := new_Date t] \<rparr>))"

text \<open>What a later read of the object at \<open>r\<close> sees.\<close>

definition observe :: "nat \<Rightarrow> store \<Rightarrow> RateLimitInfo option" where
  "observe r h =
     (case lookup (infos h) r of
        None \<Rightarrow> None
      | Some obj \<Rightarrow>
          (case lookup (dates h) (obj_resetTime obj) of
             None \<Rightarrow> None
           | Some t \<Rightarrow> Some \<lparr> requestsRemaining = obj_requestsRemaining obj, resetTime = t,
                             totalLimit = obj_totalLimit obj \<rparr>))"

text \<open>The store right after the constructor: one record, one \<open>Date\<close>.\<close>

definition store_init :: "jsnum \<Rightarrow> store" where
  "store_init now =
     \<lparr> infos = [\<lparr> obj_requestsRemaining = PInf, obj_resetTime = 0, obj_totalLimit = PInf \<rparr>],
       dates = [new_Date now] \<rparr>"

section \<open>The whole client: the request layer and the API class side by side\<close>

record app =
  limiter :: sys
  api :: OpenHands

text \<open>A transition of the request layer, seen from the whole client.\<close>

definition app_step :: "app \<Rightarrow> app option" where
  "app_step x = (case step (limiter x) of None \<Rightarrow> None | Some s' \<Rightarrow> Some (x\<lparr> limiter := s' \<rparr>))"

text \<open>A call of a method of the class, seen from the whole client.\<close>

definition app_perform :: "(call \<Rightarrow> settlement) \<Rightarrow> api_call \<Rightarrow> app \<Rightarrow> app" where
  "app_perform await_request a x = x\<lparr> api := perform await_request a (api x) \<rparr>"

section \<open>Concrete states and responses\<close>

definition quota :: "jsnum \<Rightarrow> jsnum \<Rightarrow> jsnum \<Rightarrow> RateLimiter" where
  "quota remaining limit base =
     \<lparr> rateLimitInfo = \<lparr> requestsRemaining = remaining, resetTime = Fin 0, totalLimit = limit \<rparr>,
       requestQueue = [], isProcessing = False, backoffTime = base \<rparr>"

definition plain_response :: Response where
  "plain_response =
     \<lparr> status = 200, statusText = ''OK'',
       headers = Some [(''content-type'', ''application/json'')],
       json_body = Some (JArr []) \<rparr>"

definition bare_response :: Response where
  "bare_response = \<lparr> status = 200, statusText = ''OK'', headers = None, json_body = Some (JArr []) \<rparr>"

definition known_quota :: RateLimitInfo where
  "known_quota = \<lparr> requestsRemaining = Fin 10, resetTime = Fin 5, totalLimit = Fin 100 \<rparr>"

definition other_quota :: RateLimitInfo where
  "other_quota = \<lparr> requestsRemaining = Fin 1, resetTime = Fin 7, totalLimit = Fin 2 \<rparr>"

definition sys_with :: "RateLimitInfo \<Rightarrow> sys" where
  "sys_with info = (init_sys 0 (Some ''tok'') None [])\<lparr> rateLimitInfo := info \<rparr>"

text \<open>
  The unauthenticated routes as the specification lists them: the models, agents and
  security-analyzers listings, the static configuration document, the OAuth callback.
\<close>

definition listed_unauthed_routes :: "string list" where
  "listed_unauthed_routes =
     [''/api/options/models'', ''/api/options/agents'', ''/api/options/security-analyzers'',
      ''/config.json'', ''/api/github/callback'']"

definition store_after_get :: store where
  "store_after_get =
     \<lparr> infos = [\<lparr> obj_requestsRemaining = PInf, obj_resetTime = 0, obj_totalLimit = PInf \<rparr>,
                \<lparr> obj_requestsRemaining = PInf, obj_resetTime = 0, obj_totalLimit = PInf \<rparr>],
       dates = [Fin 5] \<rparr>"


definition stale_cache :: cache where
  "stale_cache =
     [''file:/a/b.txt'' \<mapsto> Data (JStr ''old''),
      ''files:root'' \<mapsto> Data (JArr [JStr ''/a'']),
      ''files:/a'' \<mapsto> Data (JArr [JStr ''b.txt'']),
      ''models'' \<mapsto> Data (JArr [JStr ''m'']),
      ''files:/'' \<mapsto> Data (JArr [JStr ''a'']),
      ''files:dir1'' \<mapsto> Data (JArr [JStr ''e.txt'']),
      ''files:x/y/z'' \<mapsto> Data (JArr []),
      ''files:x/y'' \<mapsto> Data (JArr [JStr ''z'']) ]"

definition stale_api :: OpenHands where
  "stale_api = (OpenHands_init (Fin 0))\<lparr> cache := stale_cache \<rparr>"

definition backend_says :: "call \<Rightarrow> settlement" where
  "backend_says c =
     (if url c = ''/api/select-file?file=%2Fa%2Fb.txt'' then Resolved (Data (JObj [(''code'', JStr ''new'')]))
      else if url c = ''/api/rate-limit'' then Rejected (Error ''Error fetching /api/rate-limit'')
      else Resolved (Data (JArr [])))"





definition limited_response :: Response where
  "limited_response =
     \<lparr> status = 200, statusText = ''OK'',
       headers = Some [(''x-ratelimit-remaining'', ''30''), (''x-ratelimit-reset'', ''9''),
                       (''x-ratelimit-limit'', ''100'')],
       json_body = Some (JArr []) \<rparr>"

definition models_entry :: entry where
  "models_entry = \<lparr> execute = ExecuteRequest (get_call ''/api/options/models''), promise = 0 \<rparr>"

text \<open>The client while the models listing is being fetched; the answer carries a quota.\<close>

definition fetching_models :: sys where
  "fetching_models =
     (init_sys 0 None None [Responds limited_response])
       \<lparr> isProcessing := True, ctl := Running models_entry Fetching, next_promise := 1 \<rparr>"

definition answer_always :: "val \<Rightarrow> call \<Rightarrow> settlement" where
  "answer_always v c = Resolved v"

definition fetched_models :: sys where
  "fetched_models =
     fetching_models
       \<lparr> rateLimitInfo := \<lparr> requestsRemaining = Fin 30, resetTime = Fin 9000, totalLimit = Fin 100 \<rparr>,
         ctl := Running models_entry (Settled (Resolved (Data (JArr [])))),
         log := [Emit \<lparr> requestsRemaining = Fin 30, resetTime = Fin 9000, totalLimit = Fin 100 \<rparr>],
         backend := [] \<rparr>"

definition client :: app where
  "client = \<lparr> limiter = fetching_models, api = stale_api \<rparr>"

definition throttled :: Response where
  "throttled =
     \<lparr> status = 429, statusText = ''Too Many Requests'',
       headers = Some [(''retry-after'', ''2'')], json_body = None \<rparr>"

definition unauthorized :: Response where
  "unauthorized =
     \<lparr> status = 401, statusText = ''Unauthorized'', headers = Some [], json_body = None \<rparr>"

definition unit_A :: work where
  "unit_A = Opaque ''A'' [Rejected (ThrownResponse throttled), Resolved (Data (JStr ''a''))]"

definition unit_B :: work where
  "unit_B = Opaque ''B'' [Resolved (Data (JStr ''b''))]"

definition list_files :: call where
  "list_files = get_call ''/api/list-files''"

text \<open>A new client with no token; one with a token and a backend that answers 401, or 429, first.\<close>

definition logged_out :: sys where
  "logged_out = init_sys 0 None None [Responds plain_response, Responds plain_response]"

definition session_expired :: sys where
  "session_expired =
     init_sys 0 (Some ''tok'') None [Responds unauthorized, Responds plain_response, Responds plain_response]"

definition over_quota :: sys where
  "over_quota = init_sys 0 (Some ''tok'') None [Responds throttled, Responds plain_response]"

text \<open>
  For the order of execution: what the first invocation of a queued opaque unit settles
  to, whether that ends the unit (it resolves, or rejects with something other than a 429
  response), and the two events serving it then leaves in the log.
\<close>

definition first_outcome :: "entry \<Rightarrow> settlement option" where
  "first_outcome e =
     (case execute e of
        ExecuteRequest c \<Rightarrow> None
      | Opaque uid script \<Rightarrow> (case script of [] \<Rightarrow> None | x # xs \<Rightarrow> Some x))"

definition settles_at_once :: "entry \<Rightarrow> bool" where
  "settles_at_once e =
     (case first_outcome e of
        None \<Rightarrow> False
      | Some (Resolved v) \<Rightarrow> True
      | Some (Rejected err) \<Rightarrow> \<not> is_429 err)"

definition trace_of :: "entry \<Rightarrow> event list" where
  "trace_of e =
     (case first_outcome e of
        None \<Rightarrow> []
      | Some x \<Rightarrow> [Invoke (execute e), Settle (promise e) x])"

text \<open>
  The proactive backoff before each unit: the pause it leaves in the log, and the number of
  transitions serving one unit takes (the pause, the invocation, the settlement).
\<close>

definition pause :: "jsnum \<Rightarrow> event list" where
  "pause b = (if js_gt b (Fin 0) then [Slept b] else [])"

definition steps_per_unit :: "jsnum \<Rightarrow> nat" where
  "steps_per_unit b = (if js_gt b (Fin 0) then 3 else 2)"

definition idle :: sys where
  "idle = init_sys 0 None None []"

definition models_call :: call where
  "models_call = get_call ''/api/options/models''"

text \<open>
  Request A is \<open>request("/api/list-files")\<close> on a client with a token; request B is
  \<open>request("/api/options/models")\<close>, made while A is in flight. The backend answers A with
  429 and \<open>retry-after: 2\<close>.
\<close>

definition A_then_B :: sys where
  "A_then_B = snd (request models_call (run 1 (snd (request list_files over_quota))))"

text \<open>
  For the drain loop's \<open>catch\<close>: a settlement other than a rejection with a \<open>Response\<close>; and
  a client all of whose units, queued or in flight, are closures of \<open>request\<close> and none of
  whose promises has been rejected with a \<open>Response\<close>.
\<close>

definition no_response :: "settlement \<Rightarrow> bool" where
  "no_response st =
     (case st of
        Resolved v \<Rightarrow> True
      | Rejected err \<Rightarrow> (case err of Error m \<Rightarrow> True | ThrownResponse r \<Rightarrow> False))"

definition own_units :: "sys \<Rightarrow> bool" where
  "own_units s =
     ((\<forall>p st. map_of (settled s) p = Some st \<longrightarrow> no_response st) \<and>
      (\<forall>e \<in> set (requestQueue s). \<exists>c. execute e = ExecuteRequest c) \<and>
      (\<forall>e ph. ctl s = Running e ph \<longrightarrow>
         (\<exists>c. execute e = ExecuteRequest c) \<and> (\<forall>st. ph = Settled st \<longrightarrow> no_response st)))"

section \<open>Backoff is the step function of the remaining quota\<close>

lemma js_le_not_gt: "js_le a b \<Longrightarrow> \<not> js_gt a b"
  by (cases a; cases b) simp_all

lemma js_gt_Fin_mono: "js_gt p (Fin a) \<Longrightarrow> b \<le> a \<Longrightarrow> js_gt p (Fin b)"
  by (cases p) simp_all

text \<open>
  When the percentage is no number at all (\<open>0 / 0\<close>, or a field that \<open>parseInt\<close> could not
  read) every comparison fails and the last branch is taken.
\<close>

lemma calculateBackoff_NaN:
  "requestsRemaining (rateLimitInfo s) \<noteq> PInf \<Longrightarrow>
   js_div (requestsRemaining (rateLimitInfo s)) (totalLimit (rateLimitInfo s)) = NaN \<Longrightarrow>
   calculateBackoff s = js_mul (backoffTime s) (Fin 4)"
  by (simp add: calculateBackoff_def)

text \<open>
  Claim C1. For every state of the limiter: with unbounded remaining quota the backoff is
  0; otherwise, with \<open>pct = requestsRemaining / totalLimit\<close>, the backoff is 0 when
  \<open>pct > 0.5\<close>, the base time when \<open>0.2 < pct \<le> 0.5\<close>, twice the base time when
  \<open>0.1 < pct \<le> 0.2\<close> and four times the base time when \<open>pct \<le> 0.1\<close>. The base time is the
  limiter's \<open>backoffTime\<close>, which a new limiter sets to 1000 ms.
\<close>

theorem calculateBackoff_step_function:
  "backoffTime (RateLimiter_new now) = Fin 1000 \<and>
   (requestsRemaining (rateLimitInfo s) = PInf \<longrightarrow> calculateBackoff s = Fin 0) \<and>
   (requestsRemaining (rateLimitInfo s) \<noteq> PInf \<longrightarrow>
      (let pct = js_div (requestsRemaining (rateLimitInfo s)) (totalLimit (rateLimitInfo s)) in
        (js_gt pct (Fin (5 / 10)) \<longrightarrow> calculateBackoff s = Fin 0) \<and>
        (js_gt pct (Fin (2 / 10)) \<and> js_le pct (Fin (5 / 10)) \<longrightarrow>
           calculateBackoff s = backoffTime s) \<and>
        (js_gt pct (Fin (1 / 10)) \<and> js_le pct (Fin (2 / 10)) \<longrightarrow>
           calculateBackoff s = js_mul (backoffTime s) (Fin 2)) \<and>
        (js_le pct (Fin (1 / 10)) \<longrightarrow>
           calculateBackoff s = js_mul (backoffTime s) (Fin 4))))"
proof -
  define pct where
    "pct = js_div (requestsRemaining (rateLimitInfo s)) (totalLimit (rateLimitInfo s))"
  have le5: "js_le pct (Fin (5 / 10)) \<Longrightarrow> \<not> js_gt pct (Fin (5 / 10))"
    and le2: "js_le pct (Fin (2 / 10)) \<Longrightarrow> \<not> js_gt pct (Fin (2 / 10))"
    and le1: "js_le pct (Fin (1 / 10)) \<Longrightarrow> \<not> js_gt pct (Fin (1 / 10))"
    by (rule js_le_not_gt, assumption)+
  have d21: "\<not> js_gt pct (Fin (1 / 10)) \<Longrightarrow> \<not> js_gt pct (Fin (2 / 10))"
    and d52: "\<not> js_gt pct (Fin (2 / 10)) \<Longrightarrow> \<not> js_gt pct (Fin (5 / 10))"
    by (cases pct; simp)+
  have init: "backoffTime (RateLimiter_new now) = Fin 1000"
    by (simp add: RateLimiter_new_def)
  show ?thesis
    unfolding Let_def pct_def [symmetric]
    using init le5 le2 le1 d21 d52
    by (auto simp add: calculateBackoff_def Let_def pct_def [symmetric])
qed

theorem calculateBackoff_step_function_witness:
  "calculateBackoff (quota PInf PInf (Fin 1000)) = Fin 0 \<and>
   calculateBackoff (quota (Fin 80) (Fin 100) (Fin 1000)) = Fin 0 \<and>
   calculateBackoff (quota (Fin 30) (Fin 100) (Fin 1000)) = Fin 1000 \<and>
   calculateBackoff (quota (Fin 15) (Fin 100) (Fin 1000)) = Fin 2000 \<and>
   calculateBackoff (quota (Fin 5) (Fin 100) (Fin 1000)) = Fin 4000"
  using calculateBackoff_step_function [of "Fin 0" "quota PInf PInf (Fin 1000)"]
        calculateBackoff_step_function [of "Fin 0" "quota (Fin 80) (Fin 100) (Fin 1000)"]
        calculateBackoff_step_function [of "Fin 0" "quota (Fin 30) (Fin 100) (Fin 1000)"]
        calculateBackoff_step_function [of "Fin 0" "quota (Fin 15) (Fin 100) (Fin 1000)"]
        calculateBackoff_step_function [of "Fin 0" "quota (Fin 5) (Fin 100) (Fin 1000)"]
  by (simp add: quota_def)

section \<open>What a response does to the stored quota\<close>

lemma info_of_headers_no_reset:
  "headers_get hs ''x-ratelimit-reset'' = None \<Longrightarrow> resetTime (info_of_headers now hs) = new_Date now"
  by (simp add: info_of_headers_def Let_def)

lemma rateLimitInfo_updateRateLimits:
  "rateLimitInfo (updateRateLimits hs s) = info_of_headers (Fin (clock s)) hs"
  by (simp add: updateRateLimits_def Let_def)

text \<open>
  Claim C2, as stated, fails: a response whose headers carry none of the three rate-limit
  fields still replaces the stored record. Here the stored quota 10 of 100 is lost to a
  response with only a \<open>content-type\<close> header.
\<close>

theorem missing_fields_overwrite_counterexample:
  "headers plain_response = Some [(''content-type'', ''application/json'')] \<and>
   headers_get [(''content-type'', ''application/json'')] ''x-ratelimit-remaining'' = None \<and>
   headers_get [(''content-type'', ''application/json'')] ''x-ratelimit-reset'' = None \<and>
   headers_get [(''content-type'', ''application/json'')] ''x-ratelimit-limit'' = None \<and>
   rateLimitInfo (sys_with known_quota) = known_quota \<and>
   rateLimitInfo (note_response plain_response (sys_with known_quota)) \<noteq> known_quota"
  by (simp add: plain_response_def headers_get_def sys_with_def known_quota_def
      note_response_def rateLimitInfo_updateRateLimits info_of_headers_def Let_def init_sys_def
      RateLimiter.extend_def RateLimiter_new_def)

text \<open>
  Claim C2, amended. A response with a \<open>headers\<close> object always replaces the stored record,
  whether or not the rate-limit fields are among the headers: the new record is computed
  from the headers and the clock alone, so two limiters with different stored records hold
  the same record afterwards, and without \<open>x-ratelimit-reset\<close> the new \<open>resetTime\<close> is the
  current time. Only a response without a \<open>headers\<close> object leaves the limiter as it was.
\<close>

theorem note_response_overwrites:
  "(headers r = None \<longrightarrow> note_response r s = s) \<and>
   (\<forall>hs. headers r = Some hs \<longrightarrow>
      (clock s = clock s' \<longrightarrow>
         rateLimitInfo (note_response r s) = rateLimitInfo (note_response r s')) \<and>
      (headers_get hs ''x-ratelimit-reset'' = None \<longrightarrow>
         resetTime (rateLimitInfo (note_response r s)) = new_Date (Fin (clock s))))"
  by (simp add: note_response_def rateLimitInfo_updateRateLimits info_of_headers_no_reset)

theorem note_response_overwrites_witness:
  "note_response bare_response (sys_with known_quota) = sys_with known_quota \<and>
   rateLimitInfo (sys_with known_quota) \<noteq> rateLimitInfo (sys_with other_quota) \<and>
   rateLimitInfo (note_response plain_response (sys_with known_quota))
     = rateLimitInfo (note_response plain_response (sys_with other_quota)) \<and>
   resetTime (rateLimitInfo (note_response plain_response (sys_with known_quota))) = new_Date (Fin 0)"
proof -
  have h: "headers plain_response = Some [(''content-type'', ''application/json'')]"
    by (simp add: plain_response_def)
  have b: "headers bare_response = None"
    by (simp add: bare_response_def)
  have c: "clock (sys_with known_quota) = 0" "clock (sys_with other_quota) = 0"
    by (simp_all add: sys_with_def init_sys_def RateLimiter.extend_def)
  have d: "rateLimitInfo (sys_with known_quota) \<noteq> rateLimitInfo (sys_with other_quota)"
    by (simp add: sys_with_def known_quota_def other_quota_def)
  have g: "headers_get [(''content-type'', ''application/json'')] ''x-ratelimit-reset'' = None"
    by (simp add: headers_get_def)
  from note_response_overwrites [of bare_response "sys_with known_quota" "sys_with other_quota"] b
  have 1: "note_response bare_response (sys_with known_quota) = sys_with known_quota"
    by simp
  from note_response_overwrites [of plain_response "sys_with known_quota" "sys_with other_quota"] h
  have i: "(clock (sys_with known_quota) = clock (sys_with other_quota) \<longrightarrow>
         rateLimitInfo (note_response plain_response (sys_with known_quota))
           = rateLimitInfo (note_response plain_response (sys_with other_quota))) \<and>
      (headers_get [(''content-type'', ''application/json'')] ''x-ratelimit-reset'' = None \<longrightarrow>
         resetTime (rateLimitInfo (note_response plain_response (sys_with known_quota)))
           = new_Date (Fin (clock (sys_with known_quota))))"
    by blast
  from i have i1: "clock (sys_with known_quota) = clock (sys_with other_quota) \<Longrightarrow>
         rateLimitInfo (note_response plain_response (sys_with known_quota))
           = rateLimitInfo (note_response plain_response (sys_with other_quota))"
    and i2: "headers_get [(''content-type'', ''application/json'')] ''x-ratelimit-reset'' = None \<Longrightarrow>
         resetTime (rateLimitInfo (note_response plain_response (sys_with known_quota)))
           = new_Date (Fin (clock (sys_with known_quota)))"
    by blast+
  have 2: "rateLimitInfo (note_response plain_response (sys_with known_quota))
     = rateLimitInfo (note_response plain_response (sys_with other_quota))"
    by (rule i1) (simp only: c)
  have 3: "resetTime (rateLimitInfo (note_response plain_response (sys_with known_quota)))
     = new_Date (Fin 0)"
    using i2 [OF g] c(1) by (simp only:)
  from 1 d 2 3 show ?thesis by blast
qed

section \<open>Which routes wait for a token\<close>

lemma startsWith_trans:
  assumes a: "startsWith u p" and b: "startsWith p q"
  shows "startsWith u q"
proof -
  from b have "length (take (length q) p) = length q"
    by (simp only: startsWith_def)
  then have le: "length q \<le> length p"
    by (simp only: length_take)
  then have "take (length q) u = take (length q) (take (length p) u)"
    by (simp only: take_take min_absorb1)
  also from a have "\<dots> = take (length q) p"
    by (simp only: startsWith_def)
  also from b have "\<dots> = q"
    by (simp only: startsWith_def)
  finally show ?thesis
    by (simp only: startsWith_def)
qed

lemma needsAuth_iff:
  "needsAuth u \<longleftrightarrow>
     \<not> (startsWith u ''/api/authenticate'' \<or> startsWith u ''/api/options/'' \<or>
        startsWith u ''/config.json'' \<or> startsWith u ''/api/github/callback'')"
  by (simp add: needsAuth_def UNAUTHED_ROUTE_PREFIXES_def)

lemma listed_routes_covered:
  "list_all (\<lambda>p. list_ex (startsWith p) UNAUTHED_ROUTE_PREFIXES) listed_unauthed_routes"
  by (simp add: listed_unauthed_routes_def UNAUTHED_ROUTE_PREFIXES_def startsWith_def)

text \<open>
  Claim C7, as stated, fails: the list has four prefixes, not the five listed routes, and
  \<open>/api/authenticate\<close> needs no token although it is none of the five.
\<close>

theorem authenticate_route_counterexample:
  "\<not> list_ex (startsWith ''/api/authenticate'') listed_unauthed_routes \<and>
   \<not> needsAuth ''/api/authenticate'' \<and>
   length UNAUTHED_ROUTE_PREFIXES = 4"
  by (simp add: listed_unauthed_routes_def needsAuth_iff startsWith_def
      UNAUTHED_ROUTE_PREFIXES_def)

text \<open>
  Claim C7, amended. A URL requires authentication unless it starts with one of exactly
  four prefixes: \<open>/api/authenticate\<close>, \<open>/api/options/\<close>, \<open>/config.json\<close>,
  \<open>/api/github/callback\<close>. The five listed routes all start with one of them. A call to
  such a URL never enters the auth-wait, token or no token; a call to any other URL with
  retry budget left and no token does.
\<close>

theorem needsAuth_four_prefixes:
  "(needsAuth u \<longleftrightarrow>
      \<not> (startsWith u ''/api/authenticate'' \<or> startsWith u ''/api/options/'' \<or>
         startsWith u ''/config.json'' \<or> startsWith u ''/api/github/callback'')) \<and>
   (\<forall>p \<in> set listed_unauthed_routes. startsWith u p \<longrightarrow> \<not> needsAuth u) \<and>
   (\<not> needsAuth (url c) \<longrightarrow> fst (executeRequest_start c s) \<noteq> AuthWait) \<and>
   (needsAuth (url c) \<and> \<not> truthy (token s) \<and> 0 \<le> maxRetries c \<longrightarrow>
      fst (executeRequest_start c s) = AuthWait)"
proof -
  have listed: "\<forall>p \<in> set listed_unauthed_routes. startsWith u p \<longrightarrow> \<not> needsAuth u"
  proof (intro ballI impI)
    fix p assume p: "p \<in> set listed_unauthed_routes" and u: "startsWith u p"
    from p listed_routes_covered have "list_ex (startsWith p) UNAUTHED_ROUTE_PREFIXES"
      by (simp only: list_all_iff)
    then obtain q where q: "q \<in> set UNAUTHED_ROUTE_PREFIXES" and pq: "startsWith p q"
      by (auto simp only: list_ex_iff)
    from u pq have "startsWith u q" by (rule startsWith_trans)
    with q have "list_ex (startsWith u) UNAUTHED_ROUTE_PREFIXES"
      by (auto simp only: list_ex_iff)
    then show "\<not> needsAuth u" by (simp only: needsAuth_def not_not)
  qed
  have start: "\<not> needsAuth (url c) \<longrightarrow> fst (executeRequest_start c s) \<noteq> AuthWait"
    by (simp add: executeRequest_start_def)
  have wait: "needsAuth (url c) \<and> \<not> truthy (token s) \<and> 0 \<le> maxRetries c \<longrightarrow>
      fst (executeRequest_start c s) = AuthWait"
    by (simp add: executeRequest_start_def)
  show ?thesis
    by (intro conjI) (rule needsAuth_iff listed start wait)+
qed

theorem needsAuth_four_prefixes_witness:
  "\<not> needsAuth ''/api/options/models'' \<and>
   \<not> needsAuth ''/config.json'' \<and>
   needsAuth ''/api/list-files'' \<and>
   token (init_sys 0 None None []) = None \<and>
   fst (executeRequest_start (get_call ''/api/options/models'') (init_sys 0 None None [])) \<noteq> AuthWait \<and>
   fst (executeRequest_start (get_call ''/api/list-files'') (init_sys 0 None None [])) = AuthWait"
proof -
  have u: "url (get_call ''/api/options/models'') = ''/api/options/models''"
    "url (get_call ''/api/list-files'') = ''/api/list-files''"
    "maxRetries (get_call ''/api/list-files'') = 3"
    by (simp_all add: get_call_def)
  have t: "token (init_sys 0 None None []) = None"
    by (simp add: init_sys_def RateLimiter.extend_def)
  have m: "''/api/options/models'' \<in> set listed_unauthed_routes"
    "''/config.json'' \<in> set listed_unauthed_routes"
    by (simp_all add: listed_unauthed_routes_def)
  have sw: "startsWith ''/api/options/models'' ''/api/options/models''"
    "startsWith ''/config.json'' ''/config.json''"
    "\<not> startsWith ''/api/list-files'' ''/api/authenticate''"
    "\<not> startsWith ''/api/list-files'' ''/api/options/''"
    "\<not> startsWith ''/api/list-files'' ''/config.json''"
    "\<not> startsWith ''/api/list-files'' ''/api/github/callback''"
    by (simp_all add: startsWith_def)
  note models = needsAuth_four_prefixes [of "''/api/options/models''"
      "get_call ''/api/options/models''" "init_sys 0 None None []"]
  note config = needsAuth_four_prefixes [of "''/config.json''"
      "get_call ''/api/options/models''" "init_sys 0 None None []"]
  note files = needsAuth_four_prefixes [of "''/api/list-files''"
      "get_call ''/api/list-files''" "init_sys 0 None None []"]
  from models m(1) sw(1) have 1: "\<not> needsAuth ''/api/options/models''" by blast
  from config m(2) sw(2) have 2: "\<not> needsAuth ''/config.json''" by blast
  from files sw(3-6) have 3: "needsAuth ''/api/list-files''" by blast
  from models have "\<not> needsAuth (url (get_call ''/api/options/models'')) \<longrightarrow>
      fst (executeRequest_start (get_call ''/api/options/models'') (init_sys 0 None None [])) \<noteq> AuthWait"
    by blast
  with 1 u(1)
  have 4: "fst (executeRequest_start (get_call ''/api/options/models'') (init_sys 0 None None [])) \<noteq> AuthWait"
    by simp
  from files have "needsAuth (url (get_call ''/api/list-files''))
      \<and> \<not> truthy (token (init_sys 0 None None []))
      \<and> 0 \<le> maxRetries (get_call ''/api/list-files'') \<longrightarrow>
      fst (executeRequest_start (get_call ''/api/list-files'') (init_sys 0 None None [])) = AuthWait"
    by blast
  with 3 u(2,3) t
  have 5: "fst (executeRequest_start (get_call ''/api/list-files'') (init_sys 0 None None [])) = AuthWait"
    by (simp add: truthy_def)
  from 1 2 3 t 4 5 show ?thesis by blast
qed

section \<open>Saving and uploading invalidate the cached reads\<close>

subsection \<open>The parent directory of a path\<close>










subsection \<open>What the two mutating calls delete\<close>
















section \<open>What a caller can reach through a snapshot\<close>

lemma spread_copy_fresh:
  assumes "spread_copy this h = Some (r, h')"
  shows "this < length (infos h) \<and> r = length (infos h)
         \<and> h' = h\<lparr> infos := infos h @ [infos h ! this] \<rparr>"
  using assms by (auto simp: spread_copy_def lookup_def split: if_splits)

lemma observe_after_copy:
  assumes "spread_copy this h = Some (r, h')"
  shows "r \<noteq> this \<and> observe r h' = observe this h"
proof -
  note f = spread_copy_fresh [OF assms]
  from f have "r \<noteq> this" by simp
  moreover from f have "observe r h' = observe this h"
    by (simp add: observe_def lookup_def)
  ultimately show ?thesis by simp
qed

lemma assignment_leaves_original:
  assumes "spread_copy this h = Some (r, h')" and "is_assignment m"
  shows "observe this (mutate m r h') = observe this h"
proof -
  note f = spread_copy_fresh [OF assms(1)]
  with assms(2) show ?thesis
    by (cases m) (simp_all add: mutate_def observe_def lookup_def nth_append)
qed

text \<open>
  Claim C9, as stated, fails: the copy is shallow, so the returned object's \<open>resetTime\<close> is
  the very \<open>Date\<close> of the internal record. After \<open>getRateLimitInfo().resetTime.setTime(0)\<close>
  on a new limiter created at time 5, the limiter's own record reads reset time 0.
\<close>

theorem shared_resetTime_counterexample:
  "getRateLimitInfo 0 (store_init (Fin 5)) = Some (1, store_after_get) \<and>
   observe 0 (store_init (Fin 5))
     = Some \<lparr> requestsRemaining = PInf, resetTime = Fin 5, totalLimit = PInf \<rparr> \<and>
   observe 0 (mutate (ResetTime_setTime (Fin 0)) 1 store_after_get)
     = Some \<lparr> requestsRemaining = PInf, resetTime = Fin 0, totalLimit = PInf \<rparr>"
  by (simp add: getRateLimitInfo_def spread_copy_def store_init_def store_after_get_def
      lookup_def mutate_def observe_def)

text \<open>
  Claim C9, amended. \<open>getRateLimitStatus()\<close> and \<open>getRateLimitInfo()\<close> return a new object
  that reads the same as the stored record, never the stored object itself, and every
  assignment to a property of the returned object, \<open>resetTime\<close> included, leaves what later
  calls observe of the internal record unaffected. (The \<open>Date\<close> that \<open>resetTime\<close> refers to
  is shared with the internal record.)
\<close>

theorem snapshot_is_shallow_copy:
  "(getRateLimitInfo this h = Some (r, h') \<or> getRateLimitStatus this h = Some (r, h')) \<longrightarrow>
     r \<noteq> this \<and> observe r h' = observe this h \<and>
     (\<forall>m. is_assignment m \<longrightarrow> observe this (mutate m r h') = observe this h)"
  using observe_after_copy [of this h r h'] assignment_leaves_original [of this h r h']
  by (simp add: getRateLimitInfo_def getRateLimitStatus_def)

theorem snapshot_is_shallow_copy_witness:
  "getRateLimitInfo 0 (store_init (Fin 5)) = Some (1, store_after_get) \<and>
   is_assignment (AssignResetTime 7) \<and>
   observe 1 store_after_get = observe 0 (store_init (Fin 5)) \<and>
   observe 0 (mutate (AssignResetTime 7) 1 store_after_get) = observe 0 (store_init (Fin 5)) \<and>
   observe 0 (mutate (AssignRequestsRemaining (Fin 0)) 1 store_after_get)
     = observe 0 (store_init (Fin 5))"
proof -
  have g: "getRateLimitInfo 0 (store_init (Fin 5)) = Some (1, store_after_get)"
    by (simp add: getRateLimitInfo_def spread_copy_def store_init_def store_after_get_def
        lookup_def)
  have a: "is_assignment (AssignResetTime 7)" "is_assignment (AssignRequestsRemaining (Fin 0))"
    by simp_all
  from snapshot_is_shallow_copy [of 0 "store_init (Fin 5)" 1 store_after_get] g
  have c: "observe 1 store_after_get = observe 0 (store_init (Fin 5))"
    and m: "\<And>m. is_assignment m \<Longrightarrow>
      observe 0 (mutate m 1 store_after_get) = observe 0 (store_init (Fin 5))"
    by blast+
  from g a c m [OF a(1)] m [OF a(2)] show ?thesis by blast
qed

section \<open>The second quota store, in the API class\<close>

lemma cached_read_snapshot:
  "OpenHands_rateLimitInfo (snd (cached_read await_request key u this)) = OpenHands_rateLimitInfo this"
  by (simp add: cached_read_def split: option.splits settlement.splits)

lemma getFile_snapshot:
  "OpenHands_rateLimitInfo (snd (getFile await_request path this)) = OpenHands_rateLimitInfo this"
  by (simp add: getFile_def Let_def split: option.splits settlement.splits sum.splits)

lemma saveFile_snapshot:
  "OpenHands_rateLimitInfo (snd (saveFile await_request path content this)) = OpenHands_rateLimitInfo this"
  by (simp add: saveFile_def split: settlement.splits)

lemma uploadFiles_snapshot:
  "OpenHands_rateLimitInfo (snd (uploadFiles await_request file this)) = OpenHands_rateLimitInfo this"
  by (simp add: uploadFiles_def split: settlement.splits)

lemma getWorkspaceZip_snapshot:
  "OpenHands_rateLimitInfo (snd (getWorkspaceZip await_request this)) = OpenHands_rateLimitInfo this"
  by (simp add: getWorkspaceZip_def split: settlement.splits val.splits)

lemma perform_snapshot:
  "a \<noteq> CheckRateLimit \<Longrightarrow>
   OpenHands_rateLimitInfo (perform await_request a this) = OpenHands_rateLimitInfo this"
  by (cases a)
    (simp_all add: getModels_def getAgents_def getSecurityAnalyzers_def getConfig_def getFiles_def
      cached_read_snapshot getFile_snapshot saveFile_snapshot uploadFiles_snapshot
      getWorkspaceZip_snapshot submitFeedback_def getGitHubAccessToken_def authenticate_def)

text \<open>
  Claim C10. The snapshot behind \<open>OpenHands.getRateLimitStatus()\<close> is a store of its own.
  A method of the class other than \<open>checkRateLimit\<close> leaves it unchanged, whatever its
  request settles to; \<open>checkRateLimit\<close> replaces it by the answer when its request
  succeeds and changes nothing when it fails. No transition of the request layer touches
  the class: a response's rate-limit headers go to the limiter's record only.
\<close>

theorem snapshot_changes_only_by_checkRateLimit:
  "(a \<noteq> CheckRateLimit \<longrightarrow>
      OpenHands_rateLimitInfo (api (app_perform await_request a x)) = OpenHands_rateLimitInfo (api x)) \<and>
   (await_request checkRateLimit_call = Resolved v \<longrightarrow>
      OpenHands_rateLimitInfo (api (app_perform await_request CheckRateLimit x)) = Answer v) \<and>
   (await_request checkRateLimit_call = Rejected e \<longrightarrow>
      app_perform await_request CheckRateLimit x = x) \<and>
   (app_step x = Some x' \<longrightarrow> api x' = api x) \<and>
   (headers r = Some hs \<longrightarrow> rateLimitInfo (note_response r s) = info_of_headers (Fin (clock s)) hs)"
proof -
  have 1: "a \<noteq> CheckRateLimit \<longrightarrow>
      OpenHands_rateLimitInfo (api (app_perform await_request a x)) = OpenHands_rateLimitInfo (api x)"
    by (simp add: app_perform_def perform_snapshot)
  have 2: "await_request checkRateLimit_call = Resolved v \<longrightarrow>
      OpenHands_rateLimitInfo (api (app_perform await_request CheckRateLimit x)) = Answer v"
    by (simp add: app_perform_def checkRateLimit_def)
  have 3: "await_request checkRateLimit_call = Rejected e \<longrightarrow>
      app_perform await_request CheckRateLimit x = x"
    by (simp add: app_perform_def checkRateLimit_def)
  have 4: "app_step x = Some x' \<longrightarrow> api x' = api x"
    by (auto simp add: app_step_def split: option.splits)
  have 5: "headers r = Some hs \<longrightarrow>
      rateLimitInfo (note_response r s) = info_of_headers (Fin (clock s)) hs"
    by (simp add: note_response_def updateRateLimits_def Let_def)
  from 1 2 3 4 5 show ?thesis by blast
qed

lemma parseInt_examples:
  "parseInt ''30'' = Fin 30" "parseInt ''9'' = Fin 9" "parseInt ''100'' = Fin 100"
  "parseInt ''2'' = Fin 2" "parseInt ''5'' = Fin 5" "parseInt ''Infinity'' = NaN"
  by (simp_all add: parseInt_def strip_radix_prefix_def parse_digits_def digit_of_def
      is_js_space_def)

lemma info_of_limited_headers:
  "info_of_headers (Fin 0) [(''x-ratelimit-remaining'', ''30''), (''x-ratelimit-reset'', ''9''),
                       (''x-ratelimit-limit'', ''100'')]
   = \<lparr> requestsRemaining = Fin 30, resetTime = Fin 9000, totalLimit = Fin 100 \<rparr>"
  by (simp add: info_of_headers_def get_or_def headers_get_def parseInt_examples)

lemma step_fetching_models: "step fetching_models = Some fetched_models"
  by (simp add: fetching_models_def fetched_models_def step_def models_entry_def
      executeRequest_resume_def init_sys_def RateLimiter.extend_def RateLimiter_new_def
      on_response_def note_response_def limited_response_def updateRateLimits_def
      info_of_limited_headers get_call_def ok_def Let_def)

theorem snapshot_changes_only_by_checkRateLimit_witness:
  "GetModels \<noteq> CheckRateLimit \<and>
   OpenHands_rateLimitInfo (api (app_perform backend_says GetModels client))
     = OpenHands_rateLimitInfo (api client) \<and>
   answer_always (Data JNull) checkRateLimit_call = Resolved (Data JNull) \<and>
   OpenHands_rateLimitInfo (api (app_perform (answer_always (Data JNull)) CheckRateLimit client))
     = Answer (Data JNull) \<and>
   backend_says checkRateLimit_call = Rejected (Error ''Error fetching /api/rate-limit'') \<and>
   app_perform backend_says CheckRateLimit client = client \<and>
   app_step client = Some (client\<lparr> limiter := fetched_models \<rparr>) \<and>
   api (client\<lparr> limiter := fetched_models \<rparr>) = api client \<and>
   rateLimitInfo (note_response limited_response fetching_models)
     = \<lparr> requestsRemaining = Fin 30, resetTime = Fin 9000, totalLimit = Fin 100 \<rparr>"
proof -
  have a: "answer_always (Data JNull) checkRateLimit_call = Resolved (Data JNull)"
    by (simp add: answer_always_def)
  have b: "backend_says checkRateLimit_call = Rejected (Error ''Error fetching /api/rate-limit'')"
    by (simp add: backend_says_def checkRateLimit_call_def)
  have c: "app_step client = Some (client\<lparr> limiter := fetched_models \<rparr>)"
    by (simp add: app_step_def client_def step_fetching_models)
  have h: "headers limited_response = Some [(''x-ratelimit-remaining'', ''30''),
      (''x-ratelimit-reset'', ''9''), (''x-ratelimit-limit'', ''100'')]"
    by (simp add: limited_response_def)
  have k: "clock fetching_models = 0"
    by (simp add: fetching_models_def init_sys_def RateLimiter.extend_def)
  have d: "GetModels \<noteq> CheckRateLimit" by simp
  note t1 = snapshot_changes_only_by_checkRateLimit [where a = GetModels and x = client
      and await_request = backend_says and e = "Error ''Error fetching /api/rate-limit''"
      and x' = "client\<lparr> limiter := fetched_models \<rparr>" and r = limited_response
      and s = fetching_models
      and hs = "[(''x-ratelimit-remaining'', ''30''), (''x-ratelimit-reset'', ''9''),
                 (''x-ratelimit-limit'', ''100'')]"]
  note t2 = snapshot_changes_only_by_checkRateLimit [where x = client
      and await_request = "answer_always (Data JNull)" and v = "Data JNull"]
  from t1 d have 1: "OpenHands_rateLimitInfo (api (app_perform backend_says GetModels client))
     = OpenHands_rateLimitInfo (api client)"
    by blast
  from t2 a have 2: "OpenHands_rateLimitInfo (api (app_perform (answer_always (Data JNull))
      CheckRateLimit client)) = Answer (Data JNull)"
    by blast
  from t1 b have 3: "app_perform backend_says CheckRateLimit client = client"
    by blast
  from t1 c have 4: "api (client\<lparr> limiter := fetched_models \<rparr>) = api client"
    by blast
  from t1 h have "rateLimitInfo (note_response limited_response fetching_models)
     = info_of_headers (Fin (clock fetching_models)) [(''x-ratelimit-remaining'', ''30''),
      (''x-ratelimit-reset'', ''9''), (''x-ratelimit-limit'', ''100'')]"
    by blast
  then have 5: "rateLimitInfo (note_response limited_response fetching_models)
     = \<lparr> requestsRemaining = Fin 30, resetTime = Fin 9000, totalLimit = Fin 100 \<rparr>"
    by (simp only: k info_of_limited_headers)
  from d 1 a 2 b 3 c 4 5 show ?thesis by blast
qed

section \<open>Running the machine\<close>

lemmas machine_defs = step_def loop_head_def start_unit_def after_execute_def settle_def
  executeRequest_start_def executeRequest_resume_def on_response_def note_response_def
  nested_retry_def catch_all_def onFail_def request_def enqueue_def processQueue_def
  sleep_def updateRateLimits_def calculateBackoff_def is_429_def retry_call_def
  finalOptions_def truthy_def WAIT_FOR_AUTH_DELAY_MS_def init_sys_def RateLimiter.extend_def
  RateLimiter_new_def get_call_def no_options_def authenticate_call_def

lemma run_numeral:
  "run (numeral k) s = (case step s of None \<Rightarrow> s | Some s' \<Rightarrow> run (pred_numeral k) s')"
  by (simp add: numeral_eq_Suc)

lemma run_stuck: "step s = None \<Longrightarrow> run n s = s"
  by (cases n) simp_all

lemma run_add: "run (m + n) s = run n (run m s)"
proof (induction m arbitrary: s)
  case 0
  show ?case by simp
next
  case (Suc m)
  show ?case
  proof (cases "step s")
    case None
    then show ?thesis by (simp add: run_stuck)
  next
    case (Some s')
    then show ?thesis by (simp add: Suc.IH)
  qed
qed

text \<open>Once no transition is enabled, the state stays as it is, however long one waits.\<close>

lemma run_beyond_stuck:
  assumes "step (run k s) = None"
  shows "run (k + m) s = run k s"
  using assms by (simp add: run_add run_stuck)

lemma settled_forever:
  assumes dead: "step (run k s) = None"
    and early: "\<And>i. i < k \<Longrightarrow> settled (run i s) = []"
    and at: "settled (run k s) = []"
  shows "settled (run n s) = []"
proof (cases "n < k")
  case True
  then show ?thesis by (rule early)
next
  case False
  then obtain m where "n = k + m" by (auto simp: not_less le_iff_add)
  with dead at show ?thesis by (simp only: run_beyond_stuck)
qed

text \<open>
  A unit that awaits the promise of a nested \<open>request\<close> cannot resume while that promise is
  pending; and the promise stays pending, for the nested unit sits in the queue of the loop
  that is awaiting the outer unit. Further calls of \<open>request\<close> only lengthen the queue.
\<close>

lemma awaiting_pending_is_stuck:
  assumes "ctl s = Running e ph" and "execute e = ExecuteRequest c"
    and "ph = Forward p \<or> ph = Reauth p" and "map_of (settled s) p = None"
  shows "step s = None"
  using assms by (auto simp add: step_def executeRequest_resume_def)

lemma request_while_running:
  assumes "isProcessing s"
  shows "ctl (snd (request c s)) = ctl s \<and> settled (snd (request c s)) = settled s
         \<and> requestQueue (snd (request c s))
             = requestQueue s @ [\<lparr> execute = ExecuteRequest c, promise = next_promise s \<rparr>]"
  using assms by (simp add: request_def enqueue_def Let_def)

lemma needsAuth_list_files: "needsAuth ''/api/list-files''"
  by (simp add: needsAuth_def UNAUTHED_ROUTE_PREFIXES_def startsWith_def)

lemma deadlock_outlasts_requests:
  assumes "ctl s = Running e ph" and "execute e = ExecuteRequest c"
    and "ph = Forward p \<or> ph = Reauth p" and "map_of (settled s) p = None"
    and "isProcessing s"
  shows "step (snd (request c' s)) = None \<and> settled (snd (request c' s)) = settled s
         \<and> ctl (snd (request c' s)) = ctl s \<and> isProcessing (snd (request c' s))"
proof -
  note r = request_while_running [OF assms(5), of c']
  have p: "isProcessing (snd (request c' s))"
    using assms(5) by (simp add: request_def enqueue_def Let_def)
  from r assms(1) have c: "ctl (snd (request c' s)) = Running e ph" by simp
  from r assms(4) have m: "map_of (settled (snd (request c' s))) p = None" by simp
  from awaiting_pending_is_stuck [OF c assms(2,3) m] r p show ?thesis by simp
qed

section \<open>The retry paths\<close>

text \<open>A unit whose retry budget is below 0 fails at once with the retries-exhausted error.\<close>

lemma budget_exhausted:
  "maxRetries c < 0 \<Longrightarrow>
   executeRequest_start c s = (Settled (Rejected (Error ''Max retries exceeded'')), s)"
  by (simp add: executeRequest_start_def)

text \<open>
  Whatever the call, the budget and the backend: on a new client without a token, a call to
  a route that needs one ends, after two transitions, awaiting a promise that is pending,
  with no transition enabled.
\<close>

lemma auth_wait_always_deadlocks:
  assumes "needsAuth (url c)" and "0 \<le> maxRetries c" and "\<not> truthy tok"
  shows "ctl (run 2 (snd (request c (init_sys now tok gh net))))
           = Running \<lparr> execute = ExecuteRequest c, promise = 0 \<rparr> (Forward 1)
         \<and> settled (run 2 (snd (request c (init_sys now tok gh net)))) = []
         \<and> isProcessing (run 2 (snd (request c (init_sys now tok gh net))))
         \<and> step (run 2 (snd (request c (init_sys now tok gh net)))) = None"
proof -
  let ?s = "run 2 (snd (request c (init_sys now tok gh net)))"
  have ev: "ctl ?s = Running \<lparr> execute = ExecuteRequest c, promise = 0 \<rparr> (Forward 1)"
    "settled ?s = []" "isProcessing ?s"
    using assms
    by (simp_all add: run_numeral step_def loop_head_def start_unit_def
        executeRequest_start_def executeRequest_resume_def nested_retry_def request_def
        enqueue_def processQueue_def sleep_def calculateBackoff_def init_sys_def
        RateLimiter.extend_def RateLimiter_new_def Let_def)
  have "step ?s = None"
    by (rule awaiting_pending_is_stuck [where p = 1 and c = c, OF ev(1)]) (simp_all add: ev(2))
  with ev show ?thesis by simp
qed

text \<open>
  Claim C4, at the input where the code departs from it: \<open>request("/api/list-files")\<close> with
  the default budget 3 on a new client that has no token. The unit waits 500 ms and calls
  \<open>request\<close> with budget 2; that call enqueues a second unit and returns its promise, which
  the first unit returns. The drain loop is awaiting the first unit, so the second is never
  taken from the queue: no transition is enabled, no fetch was made, and at no time is the
  promise of the call settled, with the retries-exhausted error or otherwise.
\<close>

theorem auth_wait_deadlock:
  "needsAuth (url list_files) \<and> token logged_out = None \<and> maxRetries list_files = 3 \<and>
   ctl (run 2 (snd (request list_files logged_out)))
     = Running \<lparr> execute = ExecuteRequest list_files, promise = 0 \<rparr> (Forward 1) \<and>
   requestQueue (run 2 (snd (request list_files logged_out)))
     = [\<lparr> execute = ExecuteRequest (list_files\<lparr> maxRetries := 2 \<rparr>), promise = 1 \<rparr>] \<and>
   log (run 2 (snd (request list_files logged_out)))
     = [Requested list_files 0, Invoke (ExecuteRequest list_files), Slept (Fin 500),
        Requested (list_files\<lparr> maxRetries := 2 \<rparr>) 1] \<and>
   stuck (run 2 (snd (request list_files logged_out))) \<and>
   (\<forall>n. settled (run n (snd (request list_files logged_out))) = [])"
proof -
  let ?s = "snd (request list_files logged_out)"
  have ev: "ctl (run 2 ?s) = Running \<lparr> execute = ExecuteRequest list_files, promise = 0 \<rparr> (Forward 1)"
    "requestQueue (run 2 ?s) = [\<lparr> execute = ExecuteRequest (list_files\<lparr> maxRetries := 2 \<rparr>), promise = 1 \<rparr>]"
    "log (run 2 ?s) = [Requested list_files 0, Invoke (ExecuteRequest list_files), Slept (Fin 500),
        Requested (list_files\<lparr> maxRetries := 2 \<rparr>) 1]"
    "settled (run 2 ?s) = []"
    by (simp_all add: run_numeral list_files_def logged_out_def machine_defs
        needsAuth_list_files Let_def)
  have s01: "settled (run 0 ?s) = []" "settled (run 1 ?s) = []"
    by (simp_all add: list_files_def logged_out_def machine_defs needsAuth_list_files Let_def)
  have dead: "step (run 2 ?s) = None"
    by (rule awaiting_pending_is_stuck [where p = 1 and c = list_files, OF ev(1)])
      (simp_all add: ev(4))
  have early: "settled (run i ?s) = []" if "i < 2" for i
  proof -
    from that have "i = 0 \<or> i = 1" by arith
    with s01 show ?thesis by auto
  qed
  have never: "settled (run n ?s) = []" for n
    by (rule settled_forever [OF dead early ev(4)])
  have pre: "needsAuth (url list_files)" "token logged_out = None" "maxRetries list_files = 3"
    by (simp_all add: list_files_def get_call_def needsAuth_list_files logged_out_def
        init_sys_def RateLimiter.extend_def)
  from pre ev(1-3) dead never show ?thesis
    by (simp only: stuck_def simp_thms)
qed

text \<open>
  The same holds for the two retry paths that follow a response, whatever the call and the
  rest of the backend: after a 401 the unit awaits the re-authentication it has only
  enqueued, after a 429 the retry it has only enqueued.
\<close>

lemma reauth_always_deadlocks:
  assumes "truthy tok \<or> \<not> needsAuth (url c)" and "0 \<le> maxRetries c" and "status r = 401"
  shows "ctl (run 2 (snd (request c (init_sys now tok gh (Responds r # net)))))
           = Running \<lparr> execute = ExecuteRequest c, promise = 0 \<rparr> (Reauth 1)
         \<and> requestQueue (run 2 (snd (request c (init_sys now tok gh (Responds r # net)))))
           = [\<lparr> execute = ExecuteRequest authenticate_call, promise = 1 \<rparr>]
         \<and> settled (run 2 (snd (request c (init_sys now tok gh (Responds r # net))))) = []
         \<and> step (run 2 (snd (request c (init_sys now tok gh (Responds r # net))))) = None"
proof -
  let ?s = "run 2 (snd (request c (init_sys now tok gh (Responds r # net))))"
  have ev: "ctl ?s = Running \<lparr> execute = ExecuteRequest c, promise = 0 \<rparr> (Reauth 1)"
    "requestQueue ?s = [\<lparr> execute = ExecuteRequest authenticate_call, promise = 1 \<rparr>]"
    "settled ?s = []"
    using assms
    by (auto simp add: run_numeral step_def loop_head_def start_unit_def
        executeRequest_start_def executeRequest_resume_def on_response_def note_response_def
        updateRateLimits_def request_def enqueue_def processQueue_def calculateBackoff_def
        init_sys_def RateLimiter.extend_def RateLimiter_new_def Let_def
        split: option.splits)
  have "step ?s = None"
    by (rule awaiting_pending_is_stuck [where p = 1 and c = c, OF ev(1)]) (simp_all add: ev(3))
  with ev show ?thesis by simp
qed

lemma retry_after_always_deadlocks:
  assumes "truthy tok \<or> \<not> needsAuth (url c)" and "0 \<le> maxRetries c"
    and "status r = 429" and "headers r = Some hs"
  shows "ctl (run 3 (snd (request c (init_sys now tok gh (Responds r # net)))))
           = Running \<lparr> execute = ExecuteRequest c, promise = 0 \<rparr> (Forward 1)
         \<and> requestQueue (run 3 (snd (request c (init_sys now tok gh (Responds r # net)))))
           = [\<lparr> execute = ExecuteRequest (retry_call c), promise = 1 \<rparr>]
         \<and> settled (run 3 (snd (request c (init_sys now tok gh (Responds r # net))))) = []
         \<and> step (run 3 (snd (request c (init_sys now tok gh (Responds r # net))))) = None"
proof -
  let ?s = "run 3 (snd (request c (init_sys now tok gh (Responds r # net))))"
  have ev: "ctl ?s = Running \<lparr> execute = ExecuteRequest c, promise = 0 \<rparr> (Forward 1)"
    "requestQueue ?s = [\<lparr> execute = ExecuteRequest (retry_call c), promise = 1 \<rparr>]"
    "settled ?s = []"
    using assms
    by (auto simp add: run_numeral step_def loop_head_def start_unit_def
        executeRequest_start_def executeRequest_resume_def on_response_def note_response_def
        nested_retry_def sleep_def
        updateRateLimits_def request_def enqueue_def processQueue_def calculateBackoff_def
        init_sys_def RateLimiter.extend_def RateLimiter_new_def Let_def
        split: option.splits)
  have "step ?s = None"
    by (rule awaiting_pending_is_stuck [where p = 1 and c = c, OF ev(1)]) (simp_all add: ev(3))
  with ev show ?thesis by simp
qed

text \<open>
  Claim C5, at the input where the code departs from it: \<open>request("/api/list-files")\<close> on a
  client with a token, and the backend answers 401. The unit calls
  \<open>request("/api/authenticate", { method: "POST" }, true)\<close> and awaits its promise; the
  re-authentication unit is enqueued behind the unit that awaits it and is never taken from
  the queue. The only fetch ever made is the original one: no re-authentication reaches the
  backend, the retry of the original call is never issued, and the promise of the call is
  never settled.
\<close>

theorem reauth_deadlock:
  "backend session_expired = [Responds unauthorized, Responds plain_response, Responds plain_response] \<and>
   status unauthorized = 401 \<and>
   ctl (run 2 (snd (request list_files session_expired)))
     = Running \<lparr> execute = ExecuteRequest list_files, promise = 0 \<rparr> (Reauth 1) \<and>
   requestQueue (run 2 (snd (request list_files session_expired)))
     = [\<lparr> execute = ExecuteRequest authenticate_call, promise = 1 \<rparr>] \<and>
   log (run 2 (snd (request list_files session_expired)))
     = [Requested list_files 0, Invoke (ExecuteRequest list_files),
        FetchCall ''/api/list-files''
          \<lparr> req_method = None, body = None, init_headers = [(''Authorization'', ''Bearer tok'')] \<rparr>,
        Emit \<lparr> requestsRemaining = NaN, resetTime = Fin 0, totalLimit = NaN \<rparr>,
        Requested authenticate_call 1] \<and>
   backend (run 2 (snd (request list_files session_expired)))
     = [Responds plain_response, Responds plain_response] \<and>
   stuck (run 2 (snd (request list_files session_expired))) \<and>
   (\<forall>n. settled (run n (snd (request list_files session_expired))) = [])"
proof -
  let ?s = "snd (request list_files session_expired)"
  have ev: "ctl (run 2 ?s) = Running \<lparr> execute = ExecuteRequest list_files, promise = 0 \<rparr> (Reauth 1)"
    "requestQueue (run 2 ?s) = [\<lparr> execute = ExecuteRequest authenticate_call, promise = 1 \<rparr>]"
    "log (run 2 ?s) = [Requested list_files 0, Invoke (ExecuteRequest list_files),
        FetchCall ''/api/list-files''
          \<lparr> req_method = None, body = None, init_headers = [(''Authorization'', ''Bearer tok'')] \<rparr>,
        Emit \<lparr> requestsRemaining = NaN, resetTime = Fin 0, totalLimit = NaN \<rparr>,
        Requested authenticate_call 1]"
    "backend (run 2 ?s) = [Responds plain_response, Responds plain_response]"
    "settled (run 2 ?s) = []"
    by (simp_all add: run_numeral list_files_def session_expired_def unauthorized_def
        machine_defs needsAuth_list_files info_of_headers_def get_or_def headers_get_def
        parseInt_examples Let_def)
  have s01: "settled (run 0 ?s) = []" "settled (run 1 ?s) = []"
    by (simp_all add: list_files_def session_expired_def machine_defs needsAuth_list_files Let_def)
  have dead: "step (run 2 ?s) = None"
    by (rule awaiting_pending_is_stuck [where p = 1 and c = list_files, OF ev(1)])
      (simp_all add: ev(5))
  have early: "settled (run i ?s) = []" if "i < 2" for i
  proof -
    from that have "i = 0 \<or> i = 1" by arith
    with s01 show ?thesis by auto
  qed
  have never: "settled (run n ?s) = []" for n
    by (rule settled_forever [OF dead early ev(5)])
  have pre: "backend session_expired
      = [Responds unauthorized, Responds plain_response, Responds plain_response]"
    "status unauthorized = 401"
    by (simp_all add: session_expired_def init_sys_def RateLimiter.extend_def unauthorized_def)
  from pre ev(1-4) dead never show ?thesis
    by (simp only: stuck_def simp_thms)
qed

text \<open>
  Claim C6, at the input where the code departs from it: \<open>request("/api/list-files")\<close> on a
  client with a token, and the backend answers 429 with \<open>retry-after: 2\<close>. The unit reads
  the header, waits 2000 ms and calls \<open>request\<close> with budget 2, as the claim says; but that
  call enqueues the retry behind the unit that returns its promise, so the retry is never
  taken from the queue: the only fetch ever made is the original one, and the promise of
  the call is never settled.
\<close>

theorem retry_after_deadlock:
  "backend over_quota = [Responds throttled, Responds plain_response] \<and>
   status throttled = 429 \<and> headers throttled = Some [(''retry-after'', ''2'')] \<and>
   ctl (run 3 (snd (request list_files over_quota)))
     = Running \<lparr> execute = ExecuteRequest list_files, promise = 0 \<rparr> (Forward 1) \<and>
   requestQueue (run 3 (snd (request list_files over_quota)))
     = [\<lparr> execute = ExecuteRequest (list_files\<lparr> maxRetries := 2 \<rparr>), promise = 1 \<rparr>] \<and>
   log (run 3 (snd (request list_files over_quota)))
     = [Requested list_files 0, Invoke (ExecuteRequest list_files),
        FetchCall ''/api/list-files''
          \<lparr> req_method = None, body = None, init_headers = [(''Authorization'', ''Bearer tok'')] \<rparr>,
        Emit \<lparr> requestsRemaining = NaN, resetTime = Fin 0, totalLimit = NaN \<rparr>,
        Slept (Fin 2000),
        Requested (list_files\<lparr> maxRetries := 2 \<rparr>) 1] \<and>
   backend (run 3 (snd (request list_files over_quota))) = [Responds plain_response] \<and>
   stuck (run 3 (snd (request list_files over_quota))) \<and>
   (\<forall>n. settled (run n (snd (request list_files over_quota))) = [])"
proof -
  let ?s = "snd (request list_files over_quota)"
  have ev: "ctl (run 3 ?s) = Running \<lparr> execute = ExecuteRequest list_files, promise = 0 \<rparr> (Forward 1)"
    "requestQueue (run 3 ?s) = [\<lparr> execute = ExecuteRequest (list_files\<lparr> maxRetries := 2 \<rparr>), promise = 1 \<rparr>]"
    "log (run 3 ?s) = [Requested list_files 0, Invoke (ExecuteRequest list_files),
        FetchCall ''/api/list-files''
          \<lparr> req_method = None, body = None, init_headers = [(''Authorization'', ''Bearer tok'')] \<rparr>,
        Emit \<lparr> requestsRemaining = NaN, resetTime = Fin 0, totalLimit = NaN \<rparr>,
        Slept (Fin 2000),
        Requested (list_files\<lparr> maxRetries := 2 \<rparr>) 1]"
    "backend (run 3 ?s) = [Responds plain_response]"
    "settled (run 3 ?s) = []"
    by (simp_all add: run_numeral list_files_def over_quota_def throttled_def
        machine_defs needsAuth_list_files info_of_headers_def get_or_def headers_get_def
        parseInt_examples Let_def)
  have s012: "settled (run 0 ?s) = []" "settled (run 1 ?s) = []" "settled (run 2 ?s) = []"
    by (simp_all add: run_numeral list_files_def over_quota_def throttled_def
        machine_defs needsAuth_list_files info_of_headers_def get_or_def headers_get_def
        parseInt_examples Let_def)
  have dead: "step (run 3 ?s) = None"
    by (rule awaiting_pending_is_stuck [where p = 1 and c = list_files, OF ev(1)])
      (simp_all add: ev(5))
  have early: "settled (run i ?s) = []" if "i < 3" for i
  proof -
    from that have "i = 0 \<or> i = 1 \<or> i = 2" by arith
    with s012 show ?thesis by auto
  qed
  have never: "settled (run n ?s) = []" for n
    by (rule settled_forever [OF dead early ev(5)])
  have pre: "backend over_quota = [Responds throttled, Responds plain_response]"
    "status throttled = 429" "headers throttled = Some [(''retry-after'', ''2'')]"
    by (simp_all add: over_quota_def init_sys_def RateLimiter.extend_def throttled_def)
  from pre ev(1-4) dead never show ?thesis
    by (simp only: stuck_def simp_thms)
qed

section \<open>The order in which the queue is served\<close>

subsection \<open>The limiter on units made by hand\<close>

text \<open>
  \<open>enqueue\<close> takes any unit. For opaque units, which this module never enqueues, the loop
  serves the queue from the head, and a unit that rejects with a 429 response is put back
  at the front, unsettled.
\<close>

lemma calculateBackoff_cong:
  "rateLimitInfo s' = rateLimitInfo s \<Longrightarrow> backoffTime s' = backoffTime s \<Longrightarrow>
   calculateBackoff s' = calculateBackoff s"
  by (simp add: calculateBackoff_def Let_def)

lemma serve_head:
  assumes "ctl s = LoopHead" and "requestQueue s = e # q" and "settles_at_once e"
  shows "ctl (run (steps_per_unit (calculateBackoff s)) s) = LoopHead
         \<and> requestQueue (run (steps_per_unit (calculateBackoff s)) s) = q
         \<and> log (run (steps_per_unit (calculateBackoff s)) s)
             = log s @ pause (calculateBackoff s) @ trace_of e
         \<and> rateLimitInfo (run (steps_per_unit (calculateBackoff s)) s) = rateLimitInfo s
         \<and> backoffTime (run (steps_per_unit (calculateBackoff s)) s) = backoffTime s"
proof -
  define b where "b = calculateBackoff s"
  from assms(3) obtain uid x xs where e: "execute e = Opaque uid (x # xs)"
    by (auto simp: settles_at_once_def first_outcome_def split: work.splits list.splits)
  from assms(3) e have x: "case x of Resolved v \<Rightarrow> True | Rejected err \<Rightarrow> \<not> is_429 err"
    by (simp add: settles_at_once_def first_outcome_def)
  define s0 where "s0 = (if js_gt b (Fin 0) then sleep b (s\<lparr> ctl := BackoffSleep b \<rparr>) else s)"
  define s1 where "s1 = (s0\<lparr> requestQueue := q, log := log s0 @ [Invoke (execute e)] \<rparr>)
      \<lparr> ctl := Running (e\<lparr> execute := Opaque uid xs \<rparr>) (Settled x) \<rparr>"
  define s2 where "s2 = (settle (promise e) x s1)\<lparr> ctl := LoopHead \<rparr>"
  have q0: "requestQueue s0 = e # q" and l0: "log s0 = log s @ pause b"
    and r0: "rateLimitInfo s0 = rateLimitInfo s" and t0: "backoffTime s0 = backoffTime s"
    using assms(2) by (simp_all add: s0_def sleep_def pause_def)
  have start: "start_unit s0 = s1"
    using q0 e by (simp add: start_unit_def s1_def Let_def)
  have 2: "step s1 = Some s2"
    using x by (cases x) (simp_all add: s1_def s2_def step_def after_execute_def)
  have "run (steps_per_unit b) s = s2"
  proof (cases "js_gt b (Fin 0)")
    case True
    then have a: "step s = Some (s\<lparr> ctl := BackoffSleep b \<rparr>)"
      using assms(1,2) by (simp add: step_def loop_head_def b_def Let_def)
    from True have "step (s\<lparr> ctl := BackoffSleep b \<rparr>) = Some (start_unit s0)"
      by (simp add: step_def s0_def sleep_def)
    with a 2 True show ?thesis
      by (simp add: steps_per_unit_def run_numeral start)
  next
    case False
    then have "step s = Some (start_unit s0)"
      using assms(1,2) by (simp add: step_def loop_head_def b_def s0_def Let_def)
    with 2 False show ?thesis
      by (simp add: steps_per_unit_def run_numeral start)
  qed
  then show ?thesis
    using e l0 r0 t0
    by (simp add: b_def [symmetric] s2_def s1_def settle_def trace_of_def first_outcome_def)
qed

lemma drain_fifo:
  assumes "ctl s = LoopHead" and "requestQueue s = q" and "list_all settles_at_once q"
    and "calculateBackoff s = b"
  shows "log (run (steps_per_unit b * length q + 1) s)
           = log s @ concat (map (\<lambda>e. pause b @ trace_of e) q)
         \<and> ctl (run (steps_per_unit b * length q + 1) s) = Idle"
  using assms
proof (induction q arbitrary: s)
  case Nil
  then show ?case by (simp add: step_def loop_head_def)
next
  case (Cons e q)
  from Cons.prems have h: "settles_at_once e" and t: "list_all settles_at_once q"
    by simp_all
  note one = serve_head [OF Cons.prems(1,2) h, unfolded Cons.prems(4)]
  from one have same: "calculateBackoff (run (steps_per_unit b) s) = b"
    using Cons.prems(4) calculateBackoff_cong [of "run (steps_per_unit b) s" s] by simp
  have split: "steps_per_unit b * length (e # q) + 1
      = steps_per_unit b + (steps_per_unit b * length q + 1)"
    by simp
  from one t same
  have "log (run (steps_per_unit b * length q + 1) (run (steps_per_unit b) s))
          = log (run (steps_per_unit b) s) @ concat (map (\<lambda>e. pause b @ trace_of e) q)
        \<and> ctl (run (steps_per_unit b * length q + 1) (run (steps_per_unit b) s)) = Idle"
    by (intro Cons.IH) simp_all
  with one show ?case
    by (simp only: split run_add) simp
qed

lemma requeue_at_front:
  assumes "is_429 err"
  shows "requestQueue (after_execute e (Rejected err) s) = e # requestQueue s
         \<and> settled (after_execute e (Rejected err) s) = settled s
         \<and> backoffTime (after_execute e (Rejected err) s) = js_mul (backoffTime s) (Fin 2)
         \<and> ctl (after_execute e (Rejected err) s) = RequeueSleep (js_mul (backoffTime s) (Fin 2))"
  using assms by (simp add: after_execute_def Let_def)

lemma enqueue_at_tail:
  "requestQueue (snd (enqueue w s)) = requestQueue s @ [\<lparr> execute = w, promise = next_promise s \<rparr>]"
  by (simp add: enqueue_def processQueue_def Let_def)

lemma scenario_A_B:
  "log (run 8 (snd (enqueue unit_B (run 1 (snd (enqueue unit_A idle))))))
     = [Invoke unit_A,
        Slept (Fin 2000),
        Invoke (Opaque ''A'' [Resolved (Data (JStr ''a''))]),
        Settle 0 (Resolved (Data (JStr ''a''))),
        Invoke unit_B,
        Settle 1 (Resolved (Data (JStr ''b'')))]"
  by (simp add: run_numeral idle_def unit_A_def unit_B_def throttled_def machine_defs Let_def)

subsection \<open>The limiter on the units of \<open>request\<close>\<close>

lemma request_fields:
  "settled (snd (request c s)) = settled s"
  "requestQueue (snd (request c s))
     = requestQueue s @ [\<lparr> execute = ExecuteRequest c, promise = next_promise s \<rparr>]"
  "backoffTime (snd (request c s)) = backoffTime s"
  by (simp_all add: request_def enqueue_def processQueue_def Let_def)

lemma catch_all_fields:
  "settled (snd (catch_all c s)) = settled s"
  "requestQueue (snd (catch_all c s)) = requestQueue s"
  "backoffTime (snd (catch_all c s)) = backoffTime s"
  "fst (catch_all c s) = Settled (Rejected (Error (''Error fetching '' @ url c)))"
  by (simp_all add: catch_all_def onFail_def Let_def)

lemma onFail_fields:
  "settled (onFail c m s) = settled s" "requestQueue (onFail c m s) = requestQueue s"
  "backoffTime (onFail c m s) = backoffTime s"
  by (simp_all add: onFail_def)

lemma note_response_fields:
  "settled (note_response r s) = settled s" "requestQueue (note_response r s) = requestQueue s"
  "backoffTime (note_response r s) = backoffTime s"
  "next_promise (note_response r s) = next_promise s"
  by (simp_all add: note_response_def updateRateLimits_def Let_def split: option.splits)

lemma nested_retry_fields:
  "settled (snd (nested_retry c s)) = settled s"
  "requestQueue (snd (nested_retry c s))
     = requestQueue s @ [\<lparr> execute = ExecuteRequest (retry_call c), promise = next_promise s \<rparr>]"
  "backoffTime (snd (nested_retry c s)) = backoffTime s"
  "fst (nested_retry c s) = Forward (next_promise s)"
  by (simp_all add: nested_retry_def request_def enqueue_def processQueue_def Let_def
      split: prod.splits)

lemma sleep_fields:
  "settled (sleep d s) = settled s" "requestQueue (sleep d s) = requestQueue s"
  "backoffTime (sleep d s) = backoffTime s" "next_promise (sleep d s) = next_promise s"
  "ctl (sleep d s) = ctl s"
  by (simp_all add: sleep_def)

lemma on_response_fields:
  "settled (snd (on_response c r s)) = settled s"
  "backoffTime (snd (on_response c r s)) = backoffTime s"
  "\<forall>e \<in> set (requestQueue (snd (on_response c r s))).
      e \<in> set (requestQueue s) \<or> (\<exists>c'. execute e = ExecuteRequest c')"
  "\<And>st. fst (on_response c r s) = Settled st \<Longrightarrow> no_response st"
  by (auto simp add: on_response_def Let_def request_fields catch_all_fields onFail_fields
      note_response_fields no_response_def request_def enqueue_def processQueue_def
      split: prod.splits option.splits if_splits)

lemma executeRequest_start_fields:
  "settled (snd (executeRequest_start c s)) = settled s"
  "requestQueue (snd (executeRequest_start c s)) = requestQueue s"
  "backoffTime (snd (executeRequest_start c s)) = backoffTime s"
  "\<And>st. fst (executeRequest_start c s) = Settled st \<Longrightarrow> no_response st"
  by (auto simp add: executeRequest_start_def no_response_def split: if_splits)

lemma executeRequest_resume_fields:
  assumes "executeRequest_resume c ph s = Some (ph', s')"
    and "\<forall>p st. map_of (settled s) p = Some st \<longrightarrow> no_response st"
  shows "settled s' = settled s \<and> backoffTime s' = backoffTime s
    \<and> (\<forall>e \<in> set (requestQueue s'). e \<in> set (requestQueue s) \<or> (\<exists>c'. execute e = ExecuteRequest c'))
    \<and> (\<forall>st. ph' = Settled st \<longrightarrow> no_response st)"
proof (cases ph)
  case (Settled x1)
  with assms show ?thesis by (simp add: executeRequest_resume_def)
next
  case Pending
  with assms show ?thesis by (simp add: executeRequest_resume_def)
next
  case AuthWait
  with assms(1) have "ph' = fst (nested_retry c (sleep WAIT_FOR_AUTH_DELAY_MS s))"
    and "s' = snd (nested_retry c (sleep WAIT_FOR_AUTH_DELAY_MS s))"
    by (simp_all add: executeRequest_resume_def)
  then show ?thesis
    by (auto simp add: nested_retry_fields sleep_fields)
next
  case Fetching
  show ?thesis
  proof (cases "backend s")
    case Nil
    with Fetching assms(1) have "ph' = fst (catch_all c s)" "s' = snd (catch_all c s)"
      by (simp_all add: executeRequest_resume_def)
    then show ?thesis by (simp add: catch_all_fields no_response_def)
  next
    case (Cons x net)
    show ?thesis
    proof (cases x)
      case NetworkError
      with Cons Fetching assms(1) have "ph' = fst (catch_all c (s\<lparr> backend := net \<rparr>))"
        "s' = snd (catch_all c (s\<lparr> backend := net \<rparr>))"
        by (simp_all add: executeRequest_resume_def)
      then show ?thesis by (simp add: catch_all_fields no_response_def)
    next
      case (Responds r)
      with Cons Fetching assms(1) have "ph' = fst (on_response c r (s\<lparr> backend := net \<rparr>))"
        "s' = snd (on_response c r (s\<lparr> backend := net \<rparr>))"
        by (simp_all add: executeRequest_resume_def)
      then show ?thesis
        using on_response_fields [of c r "s\<lparr> backend := net \<rparr>"] by simp
    qed
  qed
next
  case (Reauth p)
  with assms(1) have "(ph' = fst (nested_retry c s) \<and> s' = snd (nested_retry c s))
      \<or> (ph' = fst (catch_all c s) \<and> s' = snd (catch_all c s))"
    by (auto simp add: executeRequest_resume_def split: option.splits settlement.splits)
  then show ?thesis
    by (auto simp add: nested_retry_fields catch_all_fields no_response_def)
next
  case (RetrySleep d)
  with assms(1) have "ph' = fst (nested_retry c (sleep d s))"
    and "s' = snd (nested_retry c (sleep d s))"
    by (simp_all add: executeRequest_resume_def)
  then show ?thesis
    by (auto simp add: nested_retry_fields sleep_fields)
next
  case (Forward p)
  with assms show ?thesis
    by (auto simp add: executeRequest_resume_def split: option.splits)
qed

text \<open>
  So long as only \<open>request\<close> puts units into the queue (as in this module, where
  \<open>rateLimiter\<close> is not exported), no unit ever rejects with a \<open>Response\<close>: the branch of
  \<open>processQueue\<close> that puts a unit back at the front is never taken, and \<open>backoffTime\<close>
  stays what it was.
\<close>

lemma own_units_request: "own_units s \<Longrightarrow> own_units (snd (request c s))"
  by (auto simp add: own_units_def request_def enqueue_def processQueue_def Let_def)

lemma own_units_step:
  assumes "own_units s" and "step s = Some s'"
  shows "own_units s' \<and> backoffTime s' = backoffTime s"
proof (cases "ctl s")
  case Idle
  with assms show ?thesis by (simp add: step_def)
next
  case Crashed
  with assms show ?thesis by (simp add: step_def)
next
  case LoopHead
  with assms(2) have s': "s' = loop_head s" by (simp add: step_def)
  show ?thesis
  proof (cases "requestQueue s")
    case Nil
    with s' assms(1) show ?thesis by (simp add: loop_head_def own_units_def)
  next
    case (Cons e q)
    from assms(1) Cons obtain c where c: "execute e = ExecuteRequest c"
      by (auto simp: own_units_def)
    from s' Cons c assms(1) executeRequest_start_fields [of c
        "s\<lparr> requestQueue := q, log := log s @ [Invoke (execute e)] \<rparr>"]
    show ?thesis
      by (auto simp add: loop_head_def start_unit_def own_units_def Let_def split: prod.splits)
  qed
next
  case (BackoffSleep d)
  with assms(2) have s': "s' = start_unit (sleep d s)" by (simp add: step_def)
  show ?thesis
  proof (cases "requestQueue s")
    case Nil
    with s' assms(1) BackoffSleep show ?thesis
      by (simp add: start_unit_def own_units_def sleep_def)
  next
    case (Cons e q)
    from assms(1) Cons obtain c where c: "execute e = ExecuteRequest c"
      by (auto simp: own_units_def)
    from s' Cons c assms(1) executeRequest_start_fields [of c
        "(sleep d s)\<lparr> requestQueue := q, log := log (sleep d s) @ [Invoke (execute e)] \<rparr>"]
    show ?thesis
      by (auto simp add: start_unit_def own_units_def sleep_fields Let_def split: prod.splits)
  qed
next
  case (RequeueSleep d)
  with assms show ?thesis
    by (auto simp add: step_def own_units_def sleep_fields)
next
  case (Running e ph)
  from assms(1) Running obtain c where c: "execute e = ExecuteRequest c"
    and ph: "\<And>st. ph = Settled st \<Longrightarrow> no_response st"
    and old: "\<forall>p st. map_of (settled s) p = Some st \<longrightarrow> no_response st"
    and q: "\<forall>e \<in> set (requestQueue s). \<exists>c. execute e = ExecuteRequest c"
    by (auto simp: own_units_def)
  show ?thesis
  proof (cases "\<exists>st. ph = Settled st")
    case True
    then obtain st where st: "ph = Settled st" by blast
    with Running assms(2) have s': "s' = after_execute e st s" by (simp add: step_def)
    from ph [OF st] have n: "no_response st" .
    then have "\<And>err. st = Rejected err \<Longrightarrow> \<not> is_429 err"
      by (auto simp: no_response_def is_429_def split: thrown.splits)
    with s' n old q show ?thesis
      by (cases st) (auto simp add: after_execute_def settle_def own_units_def split: if_splits)
  next
    case False
    with Running c assms(2) obtain ph' s1 where r: "executeRequest_resume c ph s = Some (ph', s1)"
      and s': "s' = s1\<lparr> ctl := Running e ph' \<rparr>"
      by (cases ph) (auto simp add: step_def split: option.splits)
    from executeRequest_resume_fields [OF r old] s' c old q show ?thesis
      by (auto simp add: own_units_def)
  qed
qed

lemma own_units_run:
  "own_units s \<Longrightarrow> own_units (run n s) \<and> backoffTime (run n s) = backoffTime s"
proof (induction n arbitrary: s)
  case 0
  then show ?case by simp
next
  case (Suc n)
  show ?case
  proof (cases "step s")
    case None
    with Suc.prems show ?thesis by simp
  next
    case (Some s')
    from own_units_step [OF Suc.prems Some] Suc.IH [of s'] Some show ?thesis by simp
  qed
qed

lemma own_units_init: "own_units (init_sys now tok gh net)"
  by (simp add: own_units_def init_sys_def RateLimiter.extend_def RateLimiter_new_def)

text \<open>
  Claim C3, at the input where the code departs from it: request A, then request B while A
  is in flight, and the backend answers A with 429 and \<open>retry-after: 2\<close>. The unit of A
  handles the 429 itself: it waits 2000 ms and calls \<open>request\<close> again, which puts the retry
  at the tail of the queue, behind B, and the unit returns the retry's promise. The loop
  sees no rejection, so it neither puts A back at the front nor doubles \<open>backoffTime\<close>; it
  goes on awaiting A. A is invoked once; its second attempt and B are never invoked, and
  no promise is ever settled.
\<close>

theorem throttled_request_goes_behind:
  "A_then_B = snd (request models_call (run 1 (snd (request list_files over_quota)))) \<and>
   backend over_quota = [Responds throttled, Responds plain_response] \<and>
   status throttled = 429 \<and>
   ctl (run 2 A_then_B)
     = Running \<lparr> execute = ExecuteRequest list_files, promise = 0 \<rparr> (Forward 2) \<and>
   requestQueue (run 2 A_then_B)
     = [\<lparr> execute = ExecuteRequest models_call, promise = 1 \<rparr>,
        \<lparr> execute = ExecuteRequest (list_files\<lparr> maxRetries := 2 \<rparr>), promise = 2 \<rparr>] \<and>
   log (run 2 A_then_B)
     = [Requested list_files 0, Invoke (ExecuteRequest list_files),
        FetchCall ''/api/list-files''
          \<lparr> req_method = None, body = None, init_headers = [(''Authorization'', ''Bearer tok'')] \<rparr>,
        Requested models_call 1,
        Emit \<lparr> requestsRemaining = NaN, resetTime = Fin 0, totalLimit = NaN \<rparr>,
        Slept (Fin 2000),
        Requested (list_files\<lparr> maxRetries := 2 \<rparr>) 2] \<and>
   stuck (run 2 A_then_B) \<and>
   (\<forall>n. settled (run n A_then_B) = []) \<and>
   (\<forall>n. backoffTime (run n A_then_B) = Fin 1000)"
proof -
  have ev: "ctl (run 2 A_then_B)
     = Running \<lparr> execute = ExecuteRequest list_files, promise = 0 \<rparr> (Forward 2)"
    "requestQueue (run 2 A_then_B)
     = [\<lparr> execute = ExecuteRequest models_call, promise = 1 \<rparr>,
        \<lparr> execute = ExecuteRequest (list_files\<lparr> maxRetries := 2 \<rparr>), promise = 2 \<rparr>]"
    "log (run 2 A_then_B)
     = [Requested list_files 0, Invoke (ExecuteRequest list_files),
        FetchCall ''/api/list-files''
          \<lparr> req_method = None, body = None, init_headers = [(''Authorization'', ''Bearer tok'')] \<rparr>,
        Requested models_call 1,
        Emit \<lparr> requestsRemaining = NaN, resetTime = Fin 0, totalLimit = NaN \<rparr>,
        Slept (Fin 2000),
        Requested (list_files\<lparr> maxRetries := 2 \<rparr>) 2]"
    "settled (run 2 A_then_B) = []"
    by (simp_all add: A_then_B_def run_numeral list_files_def models_call_def over_quota_def
        throttled_def machine_defs needsAuth_list_files info_of_headers_def get_or_def
        headers_get_def parseInt_examples Let_def)
  have s01: "settled (run 0 A_then_B) = []" "settled (run 1 A_then_B) = []"
    by (simp_all add: A_then_B_def run_numeral list_files_def models_call_def over_quota_def
        throttled_def machine_defs needsAuth_list_files info_of_headers_def get_or_def
        headers_get_def parseInt_examples Let_def)
  have dead: "step (run 2 A_then_B) = None"
    by (rule awaiting_pending_is_stuck [where p = 2 and c = list_files, OF ev(1)])
      (simp_all add: ev(4))
  have early: "settled (run i A_then_B) = []" if "i < 2" for i
  proof -
    from that have "i = 0 \<or> i = 1" by arith
    with s01 show ?thesis by auto
  qed
  have never: "settled (run n A_then_B) = []" for n
    by (rule settled_forever [OF dead early ev(4)])
  have own: "own_units A_then_B"
    unfolding A_then_B_def over_quota_def
    by (intro own_units_request conjunct1 [OF own_units_run] own_units_init)
  have b0: "backoffTime A_then_B = Fin 1000"
    by (simp add: A_then_B_def list_files_def models_call_def over_quota_def
        throttled_def machine_defs needsAuth_list_files Let_def)
  have base: "backoffTime (run n A_then_B) = Fin 1000" for n
    using own_units_run [OF own, of n] b0 by simp
  have pre: "backend over_quota = [Responds throttled, Responds plain_response]"
    "status throttled = 429"
    by (simp_all add: over_quota_def init_sys_def RateLimiter.extend_def throttled_def)
  from A_then_B_def pre ev(1-3) dead never base show ?thesis
    by (simp only: stuck_def simp_thms)
qed

end
